theory Spec2Isabelle
  imports Main
begin

section \<open>JavaScript values\<close>

text \<open>
  The client is TypeScript, and at run time every response body, event envelope and
  collection is an untyped JavaScript value produced by a JSON parser. The model keeps
  that: a value is undefined, null, a boolean, a number, a string, an array or an object.
  The client never computes with a number; it can only test one for truthiness and print
  it, so a number is kept as those two observations: whether it is truthy (neither 0 nor
  NaN), and the text the runtime prints for it. An object is the list of its own
  properties; a property read takes the first binding of the key.
\<close>

datatype jvalue =
    JUndefined
  | JNull
  | JBool bool
  | JNum bool string
  | JStr string
  | JArr "jvalue list"
  | JObj "(string \<times> jvalue) list"

text \<open>Truthiness, as tested by \<^verbatim>\<open>!x\<close>, \<^verbatim>\<open>x && y\<close>, \<^verbatim>\<open>x || y\<close> and \<^verbatim>\<open>if (x)\<close>.\<close>

fun truthy :: "jvalue \<Rightarrow> bool" where
  "truthy JUndefined = False"
| "truthy JNull = False"
| "truthy (JBool b) = b"
| "truthy (JNum nonzero printed) = nonzero"
| "truthy (JStr s) = (s \<noteq> [])"
| "truthy (JArr xs) = True"
| "truthy (JObj kvs) = True"

fun nullish :: "jvalue \<Rightarrow> bool" where
  "nullish JUndefined = True"
| "nullish JNull = True"
| "nullish v = False"

text \<open>
  The value of \<^verbatim>\<open>v.k\<close> when \<^verbatim>\<open>v\<close> is neither null nor undefined. Only the
  keys \<^verbatim>\<open>meta\<close>, \<^verbatim>\<open>data\<close>, \<^verbatim>\<open>rc\<close>, \<^verbatim>\<open>msg\<close>, \<^verbatim>\<open>csrf_token\<close>,
  \<^verbatim>\<open>message\<close> and \<^verbatim>\<open>mac\<close> are read by the client; primitives and arrays have
  none of them.
\<close>

fun property :: "jvalue \<Rightarrow> string \<Rightarrow> jvalue" where
  "property (JObj kvs) k = (case map_of kvs k of Some v \<Rightarrow> v | None \<Rightarrow> JUndefined)"
| "property v k = JUndefined"

section \<open>Errors\<close>

text \<open>
  \<^verbatim>\<open>UniFiError\<close> is the library's own error class: a message and an optional code.
  \<^verbatim>\<open>AxiosError\<close> is what the HTTP transport rejects with: the status of the response
  when there was one (\<^verbatim>\<open>error.response?.status\<close>), the transport's own code
  (\<^verbatim>\<open>error.code\<close>) and a message. \<^verbatim>\<open>TypeError\<close> is what the runtime throws on a
  property read of null or undefined, or on a call of something that is not a function.
  \<^verbatim>\<open>SocketError\<close> is what the WebSocket reports on its error event.
\<close>

datatype error =
    UniFiError string "string option"
  | AxiosError "nat option" "string option" string
  | TypeError string
  | SocketError string

fun response_status :: "error \<Rightarrow> nat option" where
  "response_status (AxiosError st c m) = st"
| "response_status e = None"

fun code :: "error \<Rightarrow> string option" where
  "code (UniFiError m c) = c"
| "code (AxiosError st c m) = c"
| "code e = None"

fun message :: "error \<Rightarrow> string" where
  "message (UniFiError m c) = m"
| "message (AxiosError st c m) = m"
| "message (TypeError m) = m"
| "message (SocketError m) = m"

text \<open>A plain property read: it throws on null and undefined.\<close>

definition js_get :: "jvalue \<Rightarrow> string \<Rightarrow> error + jvalue" where
  "js_get v k =
     (if nullish v then Inl (TypeError ''Cannot read properties of null or undefined'')
      else Inr (property v k))"

text \<open>An optional-chaining read \<^verbatim>\<open>v?.k\<close>: undefined on null and undefined.\<close>

definition opt_get :: "jvalue \<Rightarrow> string \<Rightarrow> jvalue" where
  "opt_get v k = (if nullish v then JUndefined else property v k)"

section \<open>Rendering values as text\<close>

text \<open>
  The port number in the base URL is an integer and prints in decimal, as JavaScript
  prints every integer below \<open>10\<^sup>2\<^sup>1\<close>; a port is below 65536.
\<close>

definition digit_char :: "nat \<Rightarrow> char" where
  "digit_char d = ''0123456789'' ! d"

fun show_nat :: "nat \<Rightarrow> string" where
  "show_nat n = (if n < 10 then [digit_char n] else show_nat (n div 10) @ [digit_char (n mod 10)])"

declare show_nat.simps [simp del]

definition show_int :: "int \<Rightarrow> string" where
  "show_int i = (if i < 0 then CHR ''-'' # show_nat (nat (- i)) else show_nat (nat i))"

fun join :: "string \<Rightarrow> string list \<Rightarrow> string" where
  "join sep [] = []"
| "join sep [x] = x"
| "join sep (x # y # ys) = x @ sep @ join sep (y # ys)"

text \<open>Running fallible steps in order: the first error ends the run.\<close>

definition and_then :: "error + 'a \<Rightarrow> ('a \<Rightarrow> error + 'b) \<Rightarrow> error + 'b" where
  "and_then r f = (case r of Inl e \<Rightarrow> Inl e | Inr x \<Rightarrow> f x)"

fun collect :: "(error + 'a) list \<Rightarrow> error + 'a list" where
  "collect [] = Inr []"
| "collect (r # rs) =
     (case r of
        Inl e \<Rightarrow> Inl e
      | Inr x \<Rightarrow> (case collect rs of Inl e \<Rightarrow> Inl e | Inr xs \<Rightarrow> Inr (x # xs)))"

text \<open>
  String conversion as a template literal does it. A string is itself and a number is
  its printed text. An array prints its elements in order, separated by commas, with null
  and undefined elements empty. An object without a property \<^verbatim>\<open>toString\<close> of its own
  prints as \<^verbatim>\<open>[object Object]\<close>; with one (never a function, in a value made of
  data) the conversion finds no callable \<^verbatim>\<open>toString\<close> and no \<^verbatim>\<open>valueOf\<close> that
  returns a primitive, and throws.
\<close>

fun js_string :: "jvalue \<Rightarrow> error + string" where
  "js_string JUndefined = Inr ''undefined''"
| "js_string JNull = Inr ''null''"
| "js_string (JBool b) = Inr (if b then ''true'' else ''false'')"
| "js_string (JNum nonzero printed) = Inr printed"
| "js_string (JStr s) = Inr s"
| "js_string (JArr xs) =
     and_then (collect (map (\<lambda>x. if nullish x then Inr [] else js_string x) xs))
       (\<lambda>parts. Inr (join '','' parts))"
| "js_string (JObj kvs) =
     (if map_of kvs ''toString'' = None then Inr ''[object Object]''
      else Inl (TypeError ''Cannot convert object to primitive value''))"

section \<open>Configuration and construction\<close>

text \<open>
  \<^verbatim>\<open>UniFiConfig\<close> as the constructor receives it. Every field may be missing from the
  object (the required ones too: the type is not checked at run time), so each is an
  option, \<open>None\<close> for a key that is not there. A key that is there with the value
  undefined is not modelled.
\<close>

record UniFiConfig =
  host :: "string option"
  port :: "int option"
  username :: "string option"
  password :: "string option"
  site :: "string option"
  ssl :: "bool option"
  strictSSL :: "bool option"
  timeout :: "int option"

text \<open>\<^verbatim>\<open>Required<UniFiConfig>\<close>: the options the client keeps after construction.\<close>

record Options =
  opt_host :: string
  opt_port :: int
  opt_username :: string
  opt_password :: string
  opt_site :: string
  opt_ssl :: bool
  opt_strictSSL :: bool
  opt_timeout :: int

text \<open>What \<^verbatim>\<open>new WebSocket(url, {headers: {Cookie}, rejectUnauthorized})\<close> was given.\<close>

record WebSocket =
  ws_url :: string
  ws_cookie :: string
  ws_rejectUnauthorized :: bool

text \<open>An outgoing HTTP request, after the request interceptor has added its headers.\<close>

record http_request =
  req_method :: string
  req_url :: string
  req_data :: "jvalue option"
  req_cookie :: "string option"
  req_csrf :: "jvalue option"

text \<open>What a notification carries: nothing, a value, or an error object.\<close>

datatype payload = NoPayload | Val jvalue | Err error

text \<open>
  The client object. Next to the fields of the class it records what the object did to
  the outside: the notifications it emitted, the HTTP requests it sent, the sockets it
  opened and the sockets it closed, each in order. Listeners belong to the caller: the
  model records an emission and not what a listener does with it, and it takes an
  \<^verbatim>\<open>error\<close> listener to be registered (without one, the emitter itself throws on
  \<^verbatim>\<open>emit('error', e)\<close>).
\<close>

record UniFiAPI =
  options :: Options
  baseURL :: string
  cookies :: string
  csrfToken :: jvalue
  eventSocket :: "WebSocket option"
  isAuthenticated :: bool
  emitted :: "(string \<times> payload) list"
  requests :: "http_request list"
  opened :: "WebSocket list"
  closed :: "WebSocket list"

definition emit :: "string \<Rightarrow> payload \<Rightarrow> UniFiAPI \<Rightarrow> UniFiAPI" where
  "emit name p s = s\<lparr>emitted := emitted s @ [(name, p)]\<rparr>"

text \<open>\<^verbatim>\<open>!x\<close> on an optional string: true when the key is missing or the string is empty.\<close>

definition missing :: "string option \<Rightarrow> bool" where
  "missing x = (case x of None \<Rightarrow> True | Some s \<Rightarrow> s = [])"

text \<open>
  The spread \<^verbatim>\<open>{port: 8443, ..., ...options}\<close>: a default stays unless the caller's
  object has the key.
\<close>

definition with_default :: "'a \<Rightarrow> 'a option \<Rightarrow> 'a" where
  "with_default d x = (case x of None \<Rightarrow> d | Some v \<Rightarrow> v)"

definition make_baseURL :: "bool \<Rightarrow> string \<Rightarrow> int \<Rightarrow> string" where
  "make_baseURL use_ssl h p =
     (if use_ssl then ''https'' else ''http'') @ ''://'' @ h @ '':'' @ show_int p"

text \<open>The constructor: merge the defaults, check the required fields, build the base URL.\<close>

definition constructor :: "UniFiConfig \<Rightarrow> error + UniFiAPI" where
  "constructor cfg =
     (let opts = \<lparr>opt_host = with_default [] (host cfg),
                  opt_port = with_default 8443 (port cfg),
                  opt_username = with_default [] (username cfg),
                  opt_password = with_default [] (password cfg),
                  opt_site = with_default ''default'' (site cfg),
                  opt_ssl = with_default True (ssl cfg),
                  opt_strictSSL = with_default False (strictSSL cfg),
                  opt_timeout = with_default 30000 (timeout cfg)\<rparr>
      in if missing (host cfg) \<or> missing (username cfg) \<or> missing (password cfg)
         then Inl (UniFiError ''Host, username, and password are required'' None)
         else Inr \<lparr>options = opts,
                   baseURL = make_baseURL (opt_ssl opts) (opt_host opts) (opt_port opts),
                   cookies = [], csrfToken = JStr [], eventSocket = None,
                   isAuthenticated = False,
                   emitted = [], requests = [], opened = [], closed = []\<rparr>)"

section \<open>The transport and its interceptors\<close>

text \<open>
  What the HTTP transport hands to the response interceptors: a response (its parsed body
  \<^verbatim>\<open>response.data\<close> and its \<^verbatim>\<open>set-cookie\<close> header, when the server sent one) or
  an error. The controller's answer is an argument of every operation that sends a
  request.
\<close>

record response =
  resp_data :: jvalue
  set_cookie :: "string list option"

type_synonym outcome = "error + response"

text \<open>The request interceptor: the stored cookie and CSRF token go out when they are set.\<close>

definition on_request :: "string \<Rightarrow> string \<Rightarrow> jvalue option \<Rightarrow> UniFiAPI \<Rightarrow> http_request" where
  "on_request m url d s =
     \<lparr>req_method = m, req_url = url, req_data = d,
      req_cookie = (if cookies s \<noteq> [] then Some (cookies s) else None),
      req_csrf = (if truthy (csrfToken s) then Some (csrfToken s) else None)\<rparr>"

text \<open>The response interceptor, on success: new cookies replace the stored ones.\<close>

definition on_fulfilled :: "response \<Rightarrow> UniFiAPI \<Rightarrow> UniFiAPI" where
  "on_fulfilled r s =
     (case set_cookie r of
        None \<Rightarrow> s
      | Some cs \<Rightarrow> s\<lparr>cookies := join ''; '' (map (takeWhile (\<lambda>c. c \<noteq> CHR '';'')) cs)\<rparr>)"

text \<open>The response interceptor, on failure: what it throws, and the state it leaves.\<close>

definition on_rejected :: "error \<Rightarrow> UniFiAPI \<Rightarrow> error \<times> UniFiAPI" where
  "on_rejected e s =
     (if response_status e = Some 401
      then (UniFiError ''Authentication failed'' (Some ''INVALID_CREDENTIALS''),
            s\<lparr>isAuthenticated := False\<rparr>)
      else if code e = Some ''ECONNREFUSED'' \<or> code e = Some ''ENOTFOUND''
      then (UniFiError (''Cannot connect to UniFi Controller at '' @ baseURL s)
              (Some ''CONNECTION_ERROR''), s)
      else (e, s))"

text \<open>One call of the axios instance: the request goes out, the answer passes the interceptors.\<close>

definition send :: "string \<Rightarrow> string \<Rightarrow> jvalue option \<Rightarrow> outcome \<Rightarrow> UniFiAPI \<Rightarrow> outcome \<times> UniFiAPI" where
  "send m url d raw s =
     (let s1 = s\<lparr>requests := requests s @ [on_request m url d s]\<rparr>
      in case raw of
           Inr r \<Rightarrow> (Inr r, on_fulfilled r s1)
         | Inl e \<Rightarrow> (case on_rejected e s1 of (e', s2) \<Rightarrow> (Inl e', s2)))"

section \<open>Session\<close>

text \<open>\<^verbatim>\<open>d && d.meta && d.meta.rc === 'ok'\<close>, the test of login and of request.\<close>

definition rc_ok :: "jvalue \<Rightarrow> error + bool" where
  "rc_ok d =
     (if \<not> truthy d then Inr False
      else and_then (js_get d ''meta'') (\<lambda>m.
             if \<not> truthy m then Inr False
             else and_then (js_get m ''rc'') (\<lambda>rc. Inr (rc = JStr ''ok''))))"

definition login :: "outcome \<Rightarrow> UniFiAPI \<Rightarrow> (error + bool) \<times> UniFiAPI" where
  "login raw s =
     (let creds = JObj [(''username'', JStr (opt_username (options s))),
                        (''password'', JStr (opt_password (options s))),
                        (''remember'', JBool False)]
      in case send ''post'' ''/api/login'' (Some creds) raw s of
           (Inl e, s1) \<Rightarrow> (Inl e, s1\<lparr>isAuthenticated := False\<rparr>)
         | (Inr r, s1) \<Rightarrow>
             (case rc_ok (resp_data r) of
                Inl e \<Rightarrow> (Inl e, s1\<lparr>isAuthenticated := False\<rparr>)
              | Inr False \<Rightarrow>
                  (Inl (UniFiError ''Authentication failed: Invalid response'' None),
                   s1\<lparr>isAuthenticated := False\<rparr>)
              | Inr True \<Rightarrow>
                  (let s2 = s1\<lparr>isAuthenticated := True\<rparr>
                   in case and_then (js_get (resp_data r) ''meta'') (\<lambda>m. js_get m ''csrf_token'') of
                        Inl e \<Rightarrow> (Inl e, s2\<lparr>isAuthenticated := False\<rparr>)
                      | Inr tok \<Rightarrow>
                          (Inr True,
                           emit ''authenticated'' NoPayload
                             (if truthy tok then s2\<lparr>csrfToken := tok\<rparr> else s2)))))"

text \<open>The request \<^verbatim>\<open>login\<close> sends, as it leaves the request interceptor.\<close>

definition login_request :: "UniFiAPI \<Rightarrow> http_request" where
  "login_request s =
     on_request ''post'' ''/api/login''
       (Some (JObj [(''username'', JStr (opt_username (options s))),
                    (''password'', JStr (opt_password (options s))),
                    (''remember'', JBool False)])) s"

definition logout :: "outcome \<Rightarrow> UniFiAPI \<Rightarrow> (error + bool) \<times> UniFiAPI" where
  "logout raw s =
     (case send ''post'' ''/api/logout'' None raw s of
        (Inr r, s1) \<Rightarrow>
          (let s2 = s1\<lparr>isAuthenticated := False, cookies := [], csrfToken := JStr []\<rparr>;
               s3 = (case eventSocket s2 of
                       Some ws \<Rightarrow> s2\<lparr>closed := closed s2 @ [ws], eventSocket := None\<rparr>
                     | None \<Rightarrow> s2)
           in (Inr True, emit ''disconnected'' NoPayload s3))
      | (Inl e, s1) \<Rightarrow> (Inr True, s1\<lparr>isAuthenticated := False\<rparr>))"

definition ensureAuthenticated :: "outcome \<Rightarrow> UniFiAPI \<Rightarrow> (error + unit) \<times> UniFiAPI" where
  "ensureAuthenticated raw_login s =
     (if \<not> isAuthenticated s
      then (case login raw_login s of
              (Inl e, s1) \<Rightarrow> (Inl e, s1)
            | (Inr b, s1) \<Rightarrow> (Inr (), s1))
      else (Inr (), s))"

section \<open>The request pipeline\<close>

datatype http_method = GET | POST | PUT | DELETE | PATCH

fun method_lower :: "http_method \<Rightarrow> string" where
  "method_lower GET = ''get''"
| "method_lower POST = ''post''"
| "method_lower PUT = ''put''"
| "method_lower DELETE = ''delete''"
| "method_lower PATCH = ''patch''"

text \<open>
  The end of \<^verbatim>\<open>request\<close>, once the transport has answered:
  \<^verbatim>\<open>return response.data.data || response.data\<close> when the result code is ok, and
  \<^verbatim>\<open>throw new UniFiError(`API Error: ${response.data?.meta?.msg || 'Unknown error'}`)\<close>
  otherwise; the template literal throws when the message cannot be converted to a string.
\<close>

definition unwrap :: "jvalue \<Rightarrow> error + jvalue" where
  "unwrap d =
     and_then (rc_ok d) (\<lambda>ok.
       if ok
       then and_then (js_get d ''data'') (\<lambda>payload. Inr (if truthy payload then payload else d))
       else (let msg = opt_get (opt_get d ''meta'') ''msg''
             in and_then (if truthy msg then js_string msg else Inr ''Unknown error'')
                  (\<lambda>text. Inl (UniFiError (''API Error: '' @ text) None))))"

text \<open>
  \<^verbatim>\<open>request(endpoint, method, data)\<close>. The first answer is the controller's answer to the
  login that \<^verbatim>\<open>ensureAuthenticated\<close> sends when the session is not authenticated; the
  second is its answer to the request itself.
\<close>

definition request :: "string \<Rightarrow> http_method \<Rightarrow> jvalue \<Rightarrow> outcome \<Rightarrow> outcome \<Rightarrow> UniFiAPI
    \<Rightarrow> (error + jvalue) \<times> UniFiAPI" where
  "request endpoint method data raw_login raw s =
     (case ensureAuthenticated raw_login s of
        (Inl e, s1) \<Rightarrow> (Inl e, s1)
      | (Inr u, s1) \<Rightarrow>
          (let body = (if truthy data \<and> (method = POST \<or> method = PUT \<or> method = PATCH)
                       then Some data else None)
           in case send (method_lower method) endpoint body raw s1 of
                (Inl e, s2) \<Rightarrow> (Inl e, s2)
              | (Inr r, s2) \<Rightarrow> (unwrap (resp_data r), s2)))"

section \<open>Domain operations\<close>

definition site_path :: "UniFiAPI \<Rightarrow> string \<Rightarrow> string" where
  "site_path s rest = ''/api/s/'' @ opt_site (options s) @ rest"

definition getDevices :: "outcome \<Rightarrow> outcome \<Rightarrow> UniFiAPI \<Rightarrow> (error + jvalue) \<times> UniFiAPI" where
  "getDevices raw_login raw s = request (site_path s ''/stat/device'') GET JUndefined raw_login raw s"

definition getClients :: "outcome \<Rightarrow> outcome \<Rightarrow> UniFiAPI \<Rightarrow> (error + jvalue) \<times> UniFiAPI" where
  "getClients raw_login raw s = request (site_path s ''/stat/sta'') GET JUndefined raw_login raw s"

text \<open>
  \<^verbatim>\<open>String.prototype.toLowerCase\<close>. On a string of ASCII characters it turns the
  capitals A to Z into small letters and leaves the rest. On any other string the result
  comes from the runtime's Unicode tables, which are no part of the repository: it is the
  parameter \<open>unicode_lower\<close>, and the operations that compare identifiers take it along.
\<close>

definition ascii :: "string \<Rightarrow> bool" where
  "ascii s = list_all (\<lambda>c. (of_char c :: nat) < 128) s"

definition ascii_lower :: "char \<Rightarrow> char" where
  "ascii_lower c =
     (if 65 \<le> (of_char c :: nat) \<and> (of_char c :: nat) \<le> 90 then char_of ((of_char c :: nat) + 32) else c)"

definition toLowerCase :: "(string \<Rightarrow> string) \<Rightarrow> string \<Rightarrow> string" where
  "toLowerCase unicode_lower s = (if ascii s then map ascii_lower s else unicode_lower s)"

text \<open>
  The callback \<^verbatim>\<open>d => d.mac.toLowerCase() === mac.toLowerCase()\<close>. It throws when
  \<^verbatim>\<open>d\<close> is null or undefined, and when \<^verbatim>\<open>d.mac\<close> is not a string.
\<close>

definition mac_matches :: "(string \<Rightarrow> string) \<Rightarrow> string \<Rightarrow> jvalue \<Rightarrow> error + bool" where
  "mac_matches unicode_lower mac d =
     and_then (js_get d ''mac'') (\<lambda>m.
       case m of
         JStr x \<Rightarrow> Inr (toLowerCase unicode_lower x = toLowerCase unicode_lower mac)
       | _ \<Rightarrow> Inl (TypeError ''toLowerCase is not a function''))"

text \<open>\<^verbatim>\<open>Array.prototype.find\<close>: the first element the callback accepts, else undefined.\<close>

fun array_find :: "(jvalue \<Rightarrow> error + bool) \<Rightarrow> jvalue list \<Rightarrow> error + jvalue" where
  "array_find p [] = Inr JUndefined"
| "array_find p (x # xs) =
     (case p x of Inl e \<Rightarrow> Inl e | Inr b \<Rightarrow> if b then Inr x else array_find p xs)"

text \<open>
  The body shared by \<^verbatim>\<open>getDevice\<close> and \<^verbatim>\<open>getClient\<close> after the collection has been
  fetched; \<open>kind\<close> is the word the message starts with. Only an array has \<^verbatim>\<open>find\<close>.
\<close>

definition find_by_mac :: "(string \<Rightarrow> string) \<Rightarrow> string \<Rightarrow> jvalue \<Rightarrow> string \<Rightarrow> error + jvalue" where
  "find_by_mac unicode_lower kind coll mac =
     (case coll of
        JArr xs \<Rightarrow>
          and_then (array_find (mac_matches unicode_lower mac) xs) (\<lambda>found.
            if \<not> truthy found
            then Inl (UniFiError (kind @ '' with MAC '' @ mac @ '' not found'') None)
            else Inr found)
      | _ \<Rightarrow> Inl (TypeError ''find is not a function''))"

definition getDevice :: "(string \<Rightarrow> string) \<Rightarrow> string \<Rightarrow> outcome \<Rightarrow> outcome \<Rightarrow> UniFiAPI
    \<Rightarrow> (error + jvalue) \<times> UniFiAPI" where
  "getDevice unicode_lower mac raw_login raw s =
     (case getDevices raw_login raw s of
        (Inl e, s1) \<Rightarrow> (Inl e, s1)
      | (Inr devices, s1) \<Rightarrow> (find_by_mac unicode_lower ''Device'' devices mac, s1))"

definition getClient :: "(string \<Rightarrow> string) \<Rightarrow> string \<Rightarrow> outcome \<Rightarrow> outcome \<Rightarrow> UniFiAPI
    \<Rightarrow> (error + jvalue) \<times> UniFiAPI" where
  "getClient unicode_lower mac raw_login raw s =
     (case getClients raw_login raw s of
        (Inl e, s1) \<Rightarrow> (Inl e, s1)
      | (Inr clients, s1) \<Rightarrow> (find_by_mac unicode_lower ''Client'' clients mac, s1))"

text \<open>\<^verbatim>\<open>xs[0]\<close> on whatever the pipeline returned.\<close>

fun index0 :: "jvalue \<Rightarrow> error + jvalue" where
  "index0 JUndefined = Inl (TypeError ''Cannot read properties of undefined'')"
| "index0 JNull = Inl (TypeError ''Cannot read properties of null'')"
| "index0 (JArr xs) = Inr (case xs of [] \<Rightarrow> JUndefined | x # rest \<Rightarrow> x)"
| "index0 (JStr s) = Inr (case s of [] \<Rightarrow> JUndefined | c # rest \<Rightarrow> JStr [c])"
| "index0 (JObj kvs) = Inr (property (JObj kvs) ''0'')"
| "index0 v = Inr JUndefined"

text \<open>\<^verbatim>\<open>return xs[0] || null\<close>.\<close>

definition first_or_null :: "jvalue \<Rightarrow> error + jvalue" where
  "first_or_null coll = and_then (index0 coll) (\<lambda>x. Inr (if truthy x then x else JNull))"

definition getDeviceStats :: "string \<Rightarrow> outcome \<Rightarrow> outcome \<Rightarrow> UniFiAPI \<Rightarrow> (error + jvalue) \<times> UniFiAPI" where
  "getDeviceStats mac raw_login raw s =
     (case request (site_path s (''/stat/device/'' @ mac)) GET JUndefined raw_login raw s of
        (Inl e, s1) \<Rightarrow> (Inl e, s1)
      | (Inr devices, s1) \<Rightarrow> (first_or_null devices, s1))"

definition getClientStats :: "string \<Rightarrow> outcome \<Rightarrow> outcome \<Rightarrow> UniFiAPI \<Rightarrow> (error + jvalue) \<times> UniFiAPI" where
  "getClientStats mac raw_login raw s =
     (case request (site_path s (''/stat/user/'' @ mac)) GET JUndefined raw_login raw s of
        (Inl e, s1) \<Rightarrow> (Inl e, s1)
      | (Inr clients, s1) \<Rightarrow> (first_or_null clients, s1))"

section \<open>The event stream\<close>

text \<open>\<^verbatim>\<open>String.prototype.replace\<close> with a string pattern: the first occurrence only.\<close>

fun replace_first :: "string \<Rightarrow> string \<Rightarrow> string \<Rightarrow> string" where
  "replace_first pat rep [] = (if pat = [] then rep else [])"
| "replace_first pat rep (c # cs) =
     (if take (length pat) (c # cs) = pat then rep @ drop (length pat) (c # cs)
      else c # replace_first pat rep cs)"

text \<open>
  The first thing a new socket reports decides the promise of \<^verbatim>\<open>enableEvents\<close>:
  \<^verbatim>\<open>open\<close> resolves it, \<^verbatim>\<open>error\<close> rejects it.
\<close>

datatype socket_signal = SockOpen | SockError error

definition enableEvents :: "outcome \<Rightarrow> socket_signal \<Rightarrow> UniFiAPI \<Rightarrow> (error + bool) \<times> UniFiAPI" where
  "enableEvents raw_login sig s =
     (case ensureAuthenticated raw_login s of
        (Inl e, s1) \<Rightarrow> (Inl e, s1)
      | (Inr u, s1) \<Rightarrow>
          (case eventSocket s1 of
             Some existing \<Rightarrow> (Inr True, s1)
           | None \<Rightarrow>
               (let wsUrl = replace_first ''http'' ''ws'' (baseURL s1)
                              @ ''/wss/s/'' @ opt_site (options s1) @ ''/events'';
                    ws = \<lparr>ws_url = wsUrl, ws_cookie = cookies s1,
                          ws_rejectUnauthorized = opt_strictSSL (options s1)\<rparr>;
                    s2 = s1\<lparr>eventSocket := Some ws, opened := opened s1 @ [ws]\<rparr>
                in case eventSocket s2 of
                     None \<Rightarrow> (Inl (UniFiError ''Failed to create WebSocket connection'' None), s2)
                   | Some sock \<Rightarrow>
                       (case sig of
                          SockOpen \<Rightarrow> (Inr True, emit ''events.connected'' NoPayload s2)
                        | SockError e \<Rightarrow> (Inl e, emit ''error'' (Err e) s2)))))"

definition disableEvents :: "UniFiAPI \<Rightarrow> (error + bool) \<times> UniFiAPI" where
  "disableEvents s =
     (case eventSocket s of
        Some ws \<Rightarrow> (Inr True, s\<lparr>closed := closed s @ [ws], eventSocket := None\<rparr>)
      | None \<Rightarrow> (Inr True, s))"

text \<open>The socket's \<^verbatim>\<open>close\<close> handler.\<close>

definition on_close :: "UniFiAPI \<Rightarrow> UniFiAPI" where
  "on_close s = emit ''events.disconnected'' NoPayload (s\<lparr>eventSocket := None\<rparr>)"

definition handleEvent :: "jvalue \<Rightarrow> UniFiAPI \<Rightarrow> (error + unit) \<times> UniFiAPI" where
  "handleEvent event s =
     (if \<not> truthy event then (Inr (), s)
      else case js_get event ''meta'' of
             Inl e \<Rightarrow> (Inl e, s)
           | Inr meta \<Rightarrow>
               if \<not> truthy meta then (Inr (), s)
               else (case js_get meta ''message'' of
                       Inl e \<Rightarrow> (Inl e, s)
                     | Inr eventType \<Rightarrow>
                         (case js_get event ''data'' of
                            Inl e \<Rightarrow> (Inl e, s)
                          | Inr d \<Rightarrow>
                              (let eventData = (if truthy d then d else JObj []);
                                   s1 = (if eventType = JStr ''sta:connect''
                                         then emit ''client.connected'' (Val eventData) s
                                         else if eventType = JStr ''sta:disconnect''
                                         then emit ''client.disconnected'' (Val eventData) s
                                         else if eventType = JStr ''ap:detected''
                                         then emit ''device.detected'' (Val eventData) s
                                         else if eventType = JStr ''ap:lost''
                                         then emit ''device.lost'' (Val eventData) s
                                         else emit ''event''
                                                (Val (JObj [(''type'', eventType),
                                                            (''data'', eventData)])) s)
                               in (Inr (), emit ''raw_event'' (Val event) s1)))))"

text \<open>
  The socket's \<^verbatim>\<open>message\<close> handler. The argument is what \<^verbatim>\<open>JSON.parse\<close> made of
  the frame: the parsed envelope, or the error it threw.
\<close>

definition on_message :: "error + jvalue \<Rightarrow> UniFiAPI \<Rightarrow> UniFiAPI" where
  "on_message parsed s =
     (let report = (\<lambda>e s'. emit ''error''
                      (Err (UniFiError (''Failed to parse event data: '' @ message e) None)) s')
      in case parsed of
           Inl e \<Rightarrow> report e s
         | Inr event \<Rightarrow>
             (case handleEvent event s of
                (Inl e, s1) \<Rightarrow> report e s1
              | (Inr u, s1) \<Rightarrow> s1))"

section \<open>Matching identifiers\<close>

text \<open>
  The identifier of a collection entry: its \<^verbatim>\<open>mac\<close>, when the entry is an object whose
  \<^verbatim>\<open>mac\<close> is a string, as \<^verbatim>\<open>UniFiDevice\<close> and \<^verbatim>\<open>UniFiClient\<close> declare.
\<close>

definition mac_of :: "jvalue \<Rightarrow> string option" where
  "mac_of d = (case property d ''mac'' of JStr m \<Rightarrow> Some m | _ \<Rightarrow> None)"

text \<open>
  Equality of two strings up to the case of their ASCII letters, stated without
  \<^verbatim>\<open>toLowerCase\<close>: the strings have the same length and, position by position, the
  characters are equal or are the capital and the small form of one letter.
\<close>

definition is_upper :: "char \<Rightarrow> bool" where
  "is_upper c = (65 \<le> (of_char c :: nat) \<and> (of_char c :: nat) \<le> 90)"

definition same_letter :: "char \<Rightarrow> char \<Rightarrow> bool" where
  "same_letter c d =
     (c = d \<or> (is_upper c \<and> (of_char d :: nat) = of_char c + 32)
            \<or> (is_upper d \<and> (of_char c :: nat) = of_char d + 32))"

definition equal_ignoring_case :: "string \<Rightarrow> string \<Rightarrow> bool" where
  "equal_ignoring_case a b = list_all2 same_letter a b"

text \<open>
  An entry matches an address when it has an ASCII identifier that equals the address up
  to case; it differs from the address when it has an ASCII identifier that does not.
\<close>

definition matches :: "string \<Rightarrow> jvalue \<Rightarrow> bool" where
  "matches mac d =
     (case mac_of d of Some m \<Rightarrow> ascii m \<and> equal_ignoring_case m mac | None \<Rightarrow> False)"

definition differs :: "string \<Rightarrow> jvalue \<Rightarrow> bool" where
  "differs mac d =
     (case mac_of d of Some m \<Rightarrow> ascii m \<and> \<not> equal_ignoring_case m mac | None \<Rightarrow> False)"

section \<open>Fixtures\<close>

text \<open>
  The minimal configuration of the unit tests,
  \<^verbatim>\<open>new UniFiAPI({host: 'test.local', username: 'user', password: 'pass'})\<close>, and the
  object the constructor makes of it.
\<close>

definition test_config :: UniFiConfig where
  "test_config =
     \<lparr>host = Some ''test.local'', port = None, username = Some ''user'',
      password = Some ''pass'', site = None, ssl = None, strictSSL = None, timeout = None\<rparr>"

definition test_api :: UniFiAPI where
  "test_api =
     \<lparr>options = \<lparr>opt_host = ''test.local'', opt_port = 8443, opt_username = ''user'',
                  opt_password = ''pass'', opt_site = ''default'', opt_ssl = True,
                  opt_strictSSL = False, opt_timeout = 30000\<rparr>,
      baseURL = ''https://test.local:8443'',
      cookies = [], csrfToken = JStr [], eventSocket = None, isAuthenticated = False,
      emitted = [], requests = [], opened = [], closed = []\<rparr>"

text \<open>
  A login response the controller accepts the credentials with, and the same client
  after \<^verbatim>\<open>login\<close> and \<^verbatim>\<open>enableEvents\<close> have succeeded on it.
\<close>

definition login_response :: response where
  "login_response =
     \<lparr>resp_data = JObj [(''meta'', JObj [(''rc'', JStr ''ok'')]), (''data'', JArr [])],
      set_cookie = Some [''unifises=abc; Path=/; Secure'']\<rparr>"

definition session_socket :: WebSocket where
  "session_socket =
     \<lparr>ws_url = ''wss://test.local:8443/wss/s/default/events'', ws_cookie = ''unifises=abc'',
      ws_rejectUnauthorized = False\<rparr>"

definition connected_api :: UniFiAPI where
  "connected_api =
     test_api\<lparr>cookies := ''unifises=abc'', isAuthenticated := True,
       eventSocket := Some session_socket,
       emitted := [(''authenticated'', NoPayload), (''events.connected'', NoPayload)],
       requests := [login_request test_api],
       opened := [session_socket]\<rparr>"

text \<open>Two answers of the controller to a device query: a list, and a refusal.\<close>

definition device_list :: "jvalue list" where
  "device_list =
     [JObj [(''mac'', JStr ''00:11:22:33:44:55''), (''name'', JStr ''switch'')],
      JObj [(''mac'', JStr ''aa:bb:cc:00:11:22''), (''name'', JStr ''first'')],
      JObj [(''mac'', JStr ''AA:BB:CC:00:11:22''), (''name'', JStr ''second'')]]"

definition devices_response :: response where
  "devices_response =
     \<lparr>resp_data = JObj [(''meta'', JObj [(''rc'', JStr ''ok'')]), (''data'', JArr device_list)],
      set_cookie = None\<rparr>"

definition error_response :: response where
  "error_response =
     \<lparr>resp_data = JObj [(''meta'', JObj [(''rc'', JStr ''error''),
                                         (''msg'', JStr ''api.err.NoSiteContext'')]),
                        (''data'', JArr [])],
      set_cookie = None\<rparr>"

text \<open>
  Answers with an empty list and with a list whose first element is null, and the
  transport error of a 401 response.
\<close>

definition empty_response :: response where
  "empty_response =
     \<lparr>resp_data = JObj [(''meta'', JObj [(''rc'', JStr ''ok'')]), (''data'', JArr [])],
      set_cookie = None\<rparr>"

definition null_response :: response where
  "null_response =
     \<lparr>resp_data = JObj [(''meta'', JObj [(''rc'', JStr ''ok'')]), (''data'', JArr [JNull])],
      set_cookie = None\<rparr>"

definition unauthorized :: error where
  "unauthorized = AxiosError (Some 401) (Some ''ERR_BAD_REQUEST'') ''Request failed with status code 401''"

text \<open>The request \<^verbatim>\<open>logout\<close> sends.\<close>

definition logout_request :: "UniFiAPI \<Rightarrow> http_request" where
  "logout_request s = on_request ''post'' ''/api/logout'' None s"

text \<open>
  Event envelopes with the payload \<^verbatim>\<open>{mac: "AA"}\<close>: the one tagged
  \<^verbatim>\<open>station-connect\<close>, and the one with any given tag.
\<close>

definition station_connect_envelope :: jvalue where
  "station_connect_envelope =
     JObj [(''meta'', JObj [(''message'', JStr ''station-connect'')]),
           (''data'', JObj [(''mac'', JStr ''AA'')])]"

definition tagged :: "string \<Rightarrow> jvalue" where
  "tagged t = JObj [(''meta'', JObj [(''message'', JStr t)]), (''data'', JObj [(''mac'', JStr ''AA'')])]"

text \<open>
  A refused connection, and the connected client after one of its requests was answered
  with a 401: the interceptor has cleared \<^verbatim>\<open>isAuthenticated\<close>, the event socket is
  still open.
\<close>

definition refused :: error where
  "refused = AxiosError None (Some ''ECONNREFUSED'') ''connect ECONNREFUSED''"

definition expired_api :: UniFiAPI where
  "expired_api =
     connected_api\<lparr>isAuthenticated := False,
       requests := requests connected_api @ [on_request ''get'' ''/api/self'' None connected_api]\<rparr>"

section \<open>Basic facts\<close>

lemma truthy_not_nullish: "truthy v \<Longrightarrow> \<not> nullish v"
  by (cases v) auto

lemma property_falsy: "\<not> truthy v \<Longrightarrow> property v k = JUndefined"
  by (cases v) auto

lemma property_nullish: "nullish v \<Longrightarrow> property v k = JUndefined"
  by (cases v) auto

lemma show_8443: "show_int 8443 = ''8443''"
  by (simp add: show_int_def show_nat.simps [of 8443] show_nat.simps [of 844]
      show_nat.simps [of 84] show_nat.simps [of 8] digit_char_def)

lemma constructor_test_config: "constructor test_config = Inr test_api"
  by (simp add: constructor_def test_config_def test_api_def with_default_def missing_def
      make_baseURL_def show_8443)

text \<open>The guards of the result-code test never throw: the test reads two properties.\<close>

lemma rc_ok_eq: "rc_ok d = Inr (property (property d ''meta'') ''rc'' = JStr ''ok'')"
  by (auto simp: rc_ok_def js_get_def and_then_def truthy_not_nullish property_falsy)

lemma unwrap_eq:
  "unwrap d =
     (if property (property d ''meta'') ''rc'' = JStr ''ok''
      then Inr (if truthy (property d ''data'') then property d ''data'' else d)
      else if truthy (property (property d ''meta'') ''msg'')
      then (case js_string (property (property d ''meta'') ''msg'') of
              Inl e \<Rightarrow> Inl e
            | Inr text \<Rightarrow> Inl (UniFiError (''API Error: '' @ text) None))
      else Inl (UniFiError ''API Error: Unknown error'' None))"
  by (auto simp: unwrap_def rc_ok_eq and_then_def js_get_def opt_get_def Let_def
        property_nullish split: sum.splits)

lemma send_ok:
  "send m url d (Inr r) s =
     (Inr r, on_fulfilled r (s\<lparr>requests := requests s @ [on_request m url d s]\<rparr>))"
  by (simp add: send_def Let_def)

lemma send_failed:
  "send m url d (Inl e) s =
     (Inl (fst (on_rejected e s)),
      (snd (on_rejected e s))\<lparr>requests := requests s @ [on_request m url d s]\<rparr>)"
  by (simp add: send_def Let_def on_rejected_def)

lemma ensure_auth: "isAuthenticated s \<Longrightarrow> ensureAuthenticated raw s = (Inr (), s)"
  by (simp add: ensureAuthenticated_def)

lemma on_fulfilled_auth: "isAuthenticated (on_fulfilled r s) = isAuthenticated s"
  by (simp add: on_fulfilled_def split: option.splits)

section \<open>What login does\<close>

lemma rc_ok_not_nullish:
  "property (property d ''meta'') ''rc'' = JStr ''ok'' \<Longrightarrow>
   \<not> nullish d \<and> \<not> nullish (property d ''meta'')"
  by (auto simp: property_nullish)

lemma login_failed:
  "login (Inl e) s =
     (Inl (fst (on_rejected e s)),
      (snd (on_rejected e s))\<lparr>requests := requests s @ [login_request s],
        isAuthenticated := False\<rparr>)"
  by (simp add: login_def send_failed Let_def login_request_def)

lemma login_rejected:
  "property (property (resp_data r) ''meta'') ''rc'' \<noteq> JStr ''ok'' \<Longrightarrow>
   login (Inr r) s =
     (Inl (UniFiError ''Authentication failed: Invalid response'' None),
      (on_fulfilled r (s\<lparr>requests := requests s @ [login_request s]\<rparr>))
        \<lparr>isAuthenticated := False\<rparr>)"
  by (simp add: login_def send_ok Let_def rc_ok_eq login_request_def)

lemma login_accepted:
  "property (property (resp_data r) ''meta'') ''rc'' = JStr ''ok'' \<Longrightarrow>
   login (Inr r) s =
     (Inr True,
      emit ''authenticated'' NoPayload
        (if truthy (property (property (resp_data r) ''meta'') ''csrf_token'')
         then (on_fulfilled r (s\<lparr>requests := requests s @ [login_request s]\<rparr>))
                \<lparr>isAuthenticated := True,
                  csrfToken := property (property (resp_data r) ''meta'') ''csrf_token''\<rparr>
         else (on_fulfilled r (s\<lparr>requests := requests s @ [login_request s]\<rparr>))
                \<lparr>isAuthenticated := True\<rparr>))"
  using rc_ok_not_nullish [of "resp_data r"]
  by (simp add: login_def send_ok Let_def rc_ok_eq js_get_def and_then_def login_request_def)

lemma on_fulfilled_fields:
  "eventSocket (on_fulfilled r s) = eventSocket s"
  "opened (on_fulfilled r s) = opened s"
  "closed (on_fulfilled r s) = closed s"
  "emitted (on_fulfilled r s) = emitted s"
  by (simp_all add: on_fulfilled_def split: option.splits)

lemma on_rejected_fields:
  "eventSocket (snd (on_rejected e s)) = eventSocket s"
  "opened (snd (on_rejected e s)) = opened s"
  "closed (snd (on_rejected e s)) = closed s"
  "emitted (snd (on_rejected e s)) = emitted s"
  by (simp_all add: on_rejected_def)

lemma login_ok_auth: "login raw s = (Inr b, s1) \<Longrightarrow> isAuthenticated s1"
proof (cases raw)
  case (Inl e)
  assume "login raw s = (Inr b, s1)"
  with Inl show ?thesis by (simp add: login_failed)
next
  case (Inr r)
  assume *: "login raw s = (Inr b, s1)"
  show ?thesis
  proof (cases "property (property (resp_data r) ''meta'') ''rc'' = JStr ''ok''")
    case True
    with * Inr show ?thesis by (auto simp: login_accepted emit_def)
  next
    case False
    with * Inr show ?thesis by (simp add: login_rejected)
  qed
qed

lemma login_keeps_socket:
  "eventSocket (snd (login raw s)) = eventSocket s \<and> opened (snd (login raw s)) = opened s"
proof (cases raw)
  case (Inl e)
  then show ?thesis by (simp add: login_failed on_rejected_fields)
next
  case (Inr r)
  then show ?thesis
    by (cases "property (property (resp_data r) ''meta'') ''rc'' = JStr ''ok''")
       (simp_all add: login_accepted login_rejected emit_def on_fulfilled_fields)
qed

lemma ensure_ok_auth: "ensureAuthenticated raw s = (Inr u, s1) \<Longrightarrow> isAuthenticated s1"
  by (cases "login raw s")
     (auto simp: ensureAuthenticated_def dest: login_ok_auth split: if_splits sum.splits)

lemma ensure_keeps_socket:
  "eventSocket (snd (ensureAuthenticated raw s)) = eventSocket s \<and>
   opened (snd (ensureAuthenticated raw s)) = opened s"
  using login_keeps_socket [of raw s]
  by (cases "login raw s") (auto simp: ensureAuthenticated_def split: sum.splits)

lemma enableEvents_existing:
  "isAuthenticated s \<Longrightarrow> eventSocket s = Some ws \<Longrightarrow> enableEvents raw sig s = (Inr True, s)"
  by (simp add: enableEvents_def ensure_auth)

lemma enableEvents_opened:
  "opened (snd (enableEvents raw sig s)) =
     (case eventSocket s of
        Some ws \<Rightarrow> opened s
      | None \<Rightarrow> (case eventSocket (snd (enableEvents raw sig s)) of
                   None \<Rightarrow> opened s | Some ws \<Rightarrow> opened s @ [ws]))"
  using ensure_keeps_socket [of raw s]
  by (cases "ensureAuthenticated raw s")
     (auto simp: enableEvents_def Let_def emit_def split: sum.splits option.splits socket_signal.splits)

lemma enableEvents_socket_auth:
  "eventSocket s = None \<Longrightarrow> eventSocket (snd (enableEvents raw sig s)) = Some ws \<Longrightarrow>
   isAuthenticated (snd (enableEvents raw sig s))"
  using ensure_keeps_socket [of raw s]
  by (cases "ensureAuthenticated raw s")
     (auto simp: enableEvents_def Let_def emit_def dest: ensure_ok_auth
      split: sum.splits option.splits socket_signal.splits)

lemma enableEvents_keeps_existing:
  "eventSocket s = Some ws \<Longrightarrow> eventSocket (snd (enableEvents raw sig s)) = Some ws"
  using ensure_keeps_socket [of raw s]
  by (cases "ensureAuthenticated raw s")
     (auto simp: enableEvents_def Let_def split: sum.splits option.splits)

lemma login_test_api:
  "login (Inr login_response) test_api =
     (Inr True, test_api\<lparr>cookies := ''unifises=abc'', isAuthenticated := True,
        emitted := [(''authenticated'', NoPayload)], requests := [login_request test_api]\<rparr>)"
  by (simp add: login_accepted login_response_def on_fulfilled_def emit_def test_api_def)

lemma enableEvents_test_api:
  "enableEvents (Inr login_response) SockOpen test_api = (Inr True, connected_api)"
  by (simp add: enableEvents_def ensureAuthenticated_def login_test_api Let_def emit_def
      connected_api_def session_socket_def)
     (simp add: test_api_def Let_def emit_def)

section \<open>Construction\<close>

text \<open>
  Claim C6. A required field is absent when its key is missing or its string is empty:
  that is what the constructor's test \<^verbatim>\<open>!this.options.host\<close> asks. Constructing a
  client with host, username or password absent throws the configuration error.
  Constructing it with all three present and no optional field gives the documented
  defaults: port 8443, site \<^verbatim>\<open>default\<close>, ssl on, strict certificate validation off,
  timeout 30000 ms; the base URL is then \<^verbatim>\<open>https://<host>:8443\<close> and the session
  starts unauthenticated.
\<close>

theorem constructor_required_and_defaults:
  "(missing (host cfg) \<or> missing (username cfg) \<or> missing (password cfg) \<longrightarrow>
      constructor cfg = Inl (UniFiError ''Host, username, and password are required'' None))
   \<and> (host cfg = Some h \<and> h \<noteq> [] \<and> username cfg = Some u \<and> u \<noteq> [] \<and>
       password cfg = Some pw \<and> pw \<noteq> [] \<and>
       port cfg = None \<and> site cfg = None \<and> ssl cfg = None \<and> strictSSL cfg = None \<and>
       timeout cfg = None \<longrightarrow>
      (\<exists>api. constructor cfg = Inr api \<and>
         options api = \<lparr>opt_host = h, opt_port = 8443, opt_username = u, opt_password = pw,
                         opt_site = ''default'', opt_ssl = True, opt_strictSSL = False,
                         opt_timeout = 30000\<rparr> \<and>
         baseURL api = ''https://'' @ h @ '':8443'' \<and> \<not> isAuthenticated api))"
  by (simp add: constructor_def missing_def with_default_def make_baseURL_def show_8443)

theorem constructor_required_and_defaults_witness:
  "(missing (host (test_config\<lparr>password := None\<rparr>)) \<or>
    missing (username (test_config\<lparr>password := None\<rparr>)) \<or>
    missing (password (test_config\<lparr>password := None\<rparr>)))
   \<and> constructor (test_config\<lparr>password := None\<rparr>) =
         Inl (UniFiError ''Host, username, and password are required'' None)
   \<and> host test_config = Some ''test.local'' \<and> username test_config = Some ''user''
   \<and> password test_config = Some ''pass'' \<and> port test_config = None
   \<and> site test_config = None \<and> ssl test_config = None \<and> strictSSL test_config = None
   \<and> timeout test_config = None
   \<and> (\<exists>api. constructor test_config = Inr api \<and>
         options api = \<lparr>opt_host = ''test.local'', opt_port = 8443, opt_username = ''user'',
                         opt_password = ''pass'', opt_site = ''default'', opt_ssl = True,
                         opt_strictSSL = False, opt_timeout = 30000\<rparr> \<and>
         baseURL api = ''https://test.local:8443'' \<and> \<not> isAuthenticated api)"
  using constructor_required_and_defaults [of "test_config\<lparr>password := None\<rparr>"]
    constructor_required_and_defaults [of test_config "''test.local''" "''user''" "''pass''"]
  by (simp add: test_config_def missing_def)

section \<open>The response envelope\<close>

text \<open>
  Claim C2. For every response the request pipeline processes after the transport
  succeeded: when the envelope's result code is \<^verbatim>\<open>ok\<close>, the pipeline returns the
  envelope's data section, or the whole envelope when no data section is present;
  otherwise it fails, and the failure is the application error that carries the server's
  message \<open>m\<close> as \<^verbatim>\<open>API Error: m\<close>, or \<^verbatim>\<open>API Error: Unknown error\<close> when the
  server supplied none. Present and supplied are what the code's \<^verbatim>\<open>||\<close> tests: a data
  section or message that is missing, null, false, 0 or the empty string counts as not
  there. The error carries no code.
\<close>

theorem request_unwraps_envelope:
  assumes "ensureAuthenticated raw_login s = (Inr (), s1)"
  shows "(property (property (resp_data r) ''meta'') ''rc'' = JStr ''ok'' \<and>
            truthy (property (resp_data r) ''data'') \<longrightarrow>
          fst (request endpoint method data raw_login (Inr r) s) =
            Inr (property (resp_data r) ''data''))
       \<and> (property (property (resp_data r) ''meta'') ''rc'' = JStr ''ok'' \<and>
            \<not> truthy (property (resp_data r) ''data'') \<longrightarrow>
          fst (request endpoint method data raw_login (Inr r) s) = Inr (resp_data r))
       \<and> (property (property (resp_data r) ''meta'') ''rc'' \<noteq> JStr ''ok'' \<and>
            property (property (resp_data r) ''meta'') ''msg'' = JStr m \<and> m \<noteq> [] \<longrightarrow>
          fst (request endpoint method data raw_login (Inr r) s) =
            Inl (UniFiError (''API Error: '' @ m) None))
       \<and> (property (property (resp_data r) ''meta'') ''rc'' \<noteq> JStr ''ok'' \<and>
            \<not> truthy (property (property (resp_data r) ''meta'') ''msg'') \<longrightarrow>
          fst (request endpoint method data raw_login (Inr r) s) =
            Inl (UniFiError ''API Error: Unknown error'' None))
       \<and> (property (property (resp_data r) ''meta'') ''rc'' \<noteq> JStr ''ok'' \<longrightarrow>
          isl (fst (request endpoint method data raw_login (Inr r) s)))"
  using assms
  by (simp add: request_def send_ok Let_def unwrap_eq split: sum.splits)

theorem request_unwraps_envelope_witness:
  "ensureAuthenticated (Inr login_response) connected_api = (Inr (), connected_api)
   \<and> fst (request ''/api/s/default/stat/device'' GET JUndefined (Inr login_response)
            (Inr devices_response) connected_api) =
       Inr (JArr device_list)
   \<and> fst (request ''/api/self'' GET JUndefined (Inr login_response)
            (Inr \<lparr>resp_data = JObj [(''meta'', JObj [(''rc'', JStr ''ok'')])], set_cookie = None\<rparr>)
            connected_api) =
       Inr (JObj [(''meta'', JObj [(''rc'', JStr ''ok'')])])
   \<and> fst (request ''/api/s/default/stat/device'' GET JUndefined (Inr login_response)
            (Inr error_response) connected_api) =
       Inl (UniFiError ''API Error: api.err.NoSiteContext'' None)
   \<and> fst (request ''/api/s/default/stat/device'' GET JUndefined (Inr login_response)
            (Inr \<lparr>resp_data = JStr ''<html>'', set_cookie = None\<rparr>) connected_api) =
       Inl (UniFiError ''API Error: Unknown error'' None)"
proof -
  have auth: "ensureAuthenticated (Inr login_response) connected_api = (Inr (), connected_api)"
    by (simp add: ensure_auth connected_api_def)
  show ?thesis
    using auth
      request_unwraps_envelope [OF auth, of devices_response "''/api/s/default/stat/device''" GET JUndefined]
      request_unwraps_envelope [OF auth, of "\<lparr>resp_data = JObj [(''meta'', JObj [(''rc'', JStr ''ok'')])], set_cookie = None\<rparr>" "''/api/self''" GET JUndefined]
      request_unwraps_envelope [OF auth, of error_response "''/api/s/default/stat/device''" GET JUndefined]
      request_unwraps_envelope [OF auth, of "\<lparr>resp_data = JStr ''<html>'', set_cookie = None\<rparr>" "''/api/s/default/stat/device''" GET JUndefined]
    by (simp add: devices_response_def error_response_def)
qed

section \<open>Transport failures\<close>

text \<open>
  Claim C5. For every failure of the transport: a response with status 401 becomes the
  authentication error and clears \<^verbatim>\<open>isAuthenticated\<close>; otherwise a failure with code
  \<^verbatim>\<open>ECONNREFUSED\<close> or \<^verbatim>\<open>ENOTFOUND\<close> becomes the connection error that names the
  base URL; every other error is thrown again as it came. This holds for each call
  through the HTTP client, and so for \<^verbatim>\<open>request\<close> on an authenticated session, where
  the flag stays set unless the status was 401.
\<close>

theorem transport_failure_classified:
  "(response_status e = Some 401 \<longrightarrow>
      fst (send m url d (Inl e) s) =
        Inl (UniFiError ''Authentication failed'' (Some ''INVALID_CREDENTIALS'')) \<and>
      \<not> isAuthenticated (snd (send m url d (Inl e) s)))
   \<and> (response_status e \<noteq> Some 401 \<and>
       (code e = Some ''ECONNREFUSED'' \<or> code e = Some ''ENOTFOUND'') \<longrightarrow>
      fst (send m url d (Inl e) s) =
        Inl (UniFiError (''Cannot connect to UniFi Controller at '' @ baseURL s)
               (Some ''CONNECTION_ERROR'')) \<and>
      isAuthenticated (snd (send m url d (Inl e) s)) = isAuthenticated s)
   \<and> (response_status e \<noteq> Some 401 \<and> code e \<noteq> Some ''ECONNREFUSED'' \<and>
       code e \<noteq> Some ''ENOTFOUND'' \<longrightarrow>
      fst (send m url d (Inl e) s) = Inl e \<and>
      isAuthenticated (snd (send m url d (Inl e) s)) = isAuthenticated s)
   \<and> (isAuthenticated s \<and> response_status e = Some 401 \<longrightarrow>
      fst (request endpoint method data raw_login (Inl e) s) =
        Inl (UniFiError ''Authentication failed'' (Some ''INVALID_CREDENTIALS'')) \<and>
      \<not> isAuthenticated (snd (request endpoint method data raw_login (Inl e) s)))
   \<and> (isAuthenticated s \<and> response_status e \<noteq> Some 401 \<and>
       (code e = Some ''ECONNREFUSED'' \<or> code e = Some ''ENOTFOUND'') \<longrightarrow>
      fst (request endpoint method data raw_login (Inl e) s) =
        Inl (UniFiError (''Cannot connect to UniFi Controller at '' @ baseURL s)
               (Some ''CONNECTION_ERROR'')) \<and>
      isAuthenticated (snd (request endpoint method data raw_login (Inl e) s)))
   \<and> (isAuthenticated s \<and> response_status e \<noteq> Some 401 \<and> code e \<noteq> Some ''ECONNREFUSED'' \<and>
       code e \<noteq> Some ''ENOTFOUND'' \<longrightarrow>
      fst (request endpoint method data raw_login (Inl e) s) = Inl e \<and>
      isAuthenticated (snd (request endpoint method data raw_login (Inl e) s)))"
  by (simp add: send_failed on_rejected_def request_def ensure_auth Let_def)

theorem transport_failure_classified_witness:
  "response_status (AxiosError (Some 401) (Some ''ERR_BAD_REQUEST'') ''Request failed with status code 401'') = Some 401
   \<and> fst (request ''/api/self'' GET JUndefined (Inr login_response)
        (Inl (AxiosError (Some 401) (Some ''ERR_BAD_REQUEST'') ''Request failed with status code 401'')) connected_api) =
       Inl (UniFiError ''Authentication failed'' (Some ''INVALID_CREDENTIALS''))
   \<and> \<not> isAuthenticated (snd (request ''/api/self'' GET JUndefined (Inr login_response)
        (Inl (AxiosError (Some 401) (Some ''ERR_BAD_REQUEST'') ''Request failed with status code 401'')) connected_api))
   \<and> fst (request ''/api/self'' GET JUndefined (Inr login_response)
        (Inl (AxiosError None (Some ''ECONNREFUSED'') ''connect ECONNREFUSED'')) connected_api) =
       Inl (UniFiError ''Cannot connect to UniFi Controller at https://test.local:8443'' (Some ''CONNECTION_ERROR''))
   \<and> fst (request ''/api/self'' GET JUndefined (Inr login_response)
        (Inl (AxiosError None (Some ''ENOTFOUND'') ''getaddrinfo ENOTFOUND test.local'')) connected_api) =
       Inl (UniFiError ''Cannot connect to UniFi Controller at https://test.local:8443'' (Some ''CONNECTION_ERROR''))
   \<and> fst (request ''/api/self'' GET JUndefined (Inr login_response)
        (Inl (AxiosError (Some 500) (Some ''ERR_BAD_RESPONSE'') ''Request failed with status code 500'')) connected_api) =
       Inl (AxiosError (Some 500) (Some ''ERR_BAD_RESPONSE'') ''Request failed with status code 500'')
   \<and> isAuthenticated connected_api"
  using
    transport_failure_classified [of "AxiosError (Some 401) (Some ''ERR_BAD_REQUEST'') ''Request failed with status code 401''"
       "''get''" "''/api/self''" None connected_api "''/api/self''" GET JUndefined "Inr login_response"]
    transport_failure_classified [of "AxiosError None (Some ''ECONNREFUSED'') ''connect ECONNREFUSED''"
       "''get''" "''/api/self''" None connected_api "''/api/self''" GET JUndefined "Inr login_response"]
    transport_failure_classified [of "AxiosError None (Some ''ENOTFOUND'') ''getaddrinfo ENOTFOUND test.local''"
       "''get''" "''/api/self''" None connected_api "''/api/self''" GET JUndefined "Inr login_response"]
    transport_failure_classified [of "AxiosError (Some 500) (Some ''ERR_BAD_RESPONSE'') ''Request failed with status code 500''"
       "''get''" "''/api/self''" None connected_api "''/api/self''" GET JUndefined "Inr login_response"]
  by (simp add: connected_api_def test_api_def)

section \<open>Opening the event stream twice\<close>

text \<open>
  Claim C7, as amended. Two calls of \<^verbatim>\<open>enableEvents\<close> in succession, with no close
  between them, open at most one connection. When the first call has opened the
  connection, or when the session is authenticated and holds a connection, the second
  call resolves with true and changes nothing, whatever the controller and the socket
  would answer. No call opens a connection or replaces the handle while a handle exists.
\<close>

theorem enableEvents_idempotent:
  assumes first: "enableEvents raw1 sig1 s = (r1, s1)"
    and second: "enableEvents raw2 sig2 s1 = (r2, s2)"
  shows "length (opened s2) \<le> length (opened s) + 1
     \<and> (eventSocket s = None \<and> eventSocket s1 = Some ws \<longrightarrow>
           opened s1 = opened s @ [ws] \<and> r2 = Inr True \<and> s2 = s1)
     \<and> (isAuthenticated s1 \<and> eventSocket s1 = Some ws \<longrightarrow> r2 = Inr True \<and> s2 = s1)
     \<and> (eventSocket s1 = Some ws \<longrightarrow> eventSocket s2 = Some ws \<and> opened s2 = opened s1)"
proof -
  have s1: "s1 = snd (enableEvents raw1 sig1 s)" and s2: "s2 = snd (enableEvents raw2 sig2 s1)"
    using first second by simp_all
  have c3: "isAuthenticated s1 \<and> eventSocket s1 = Some ws \<longrightarrow> r2 = Inr True \<and> s2 = s1"
    using second enableEvents_existing [of s1 ws raw2 sig2] by auto
  have c2: "eventSocket s = None \<and> eventSocket s1 = Some ws \<longrightarrow>
           opened s1 = opened s @ [ws] \<and> r2 = Inr True \<and> s2 = s1"
    using c3 enableEvents_socket_auth [of s raw1 sig1 ws] enableEvents_opened [of raw1 sig1 s] s1
    by auto
  have c4: "eventSocket s1 = Some ws \<longrightarrow> eventSocket s2 = Some ws \<and> opened s2 = opened s1"
    using enableEvents_keeps_existing [of s1 ws raw2 sig2] enableEvents_opened [of raw2 sig2 s1] s2
    by auto
  have c1: "length (opened s2) \<le> length (opened s) + 1"
  proof (cases "eventSocket s1")
    case None
    then have "opened s1 = opened s"
      using enableEvents_opened [of raw1 sig1 s] s1 by (auto split: option.splits)
    then show ?thesis
      using enableEvents_opened [of raw2 sig2 s1] s2 None by (auto split: option.splits)
  next
    case (Some w)
    then have "opened s2 = opened s1"
      using enableEvents_opened [of raw2 sig2 s1] s2 by auto
    then show ?thesis
      using enableEvents_opened [of raw1 sig1 s] s1 by (auto split: option.splits)
  qed
  from c1 c2 c3 c4 show ?thesis by blast
qed

theorem enableEvents_idempotent_witness:
  "enableEvents (Inr login_response) SockOpen test_api = (Inr True, connected_api)
   \<and> enableEvents (Inl (AxiosError None (Some ''ECONNREFUSED'') ''connect ECONNREFUSED''))
        (SockError (SocketError ''unexpected server response'')) connected_api =
       (Inr True, connected_api)
   \<and> eventSocket test_api = None \<and> eventSocket connected_api = Some session_socket
   \<and> isAuthenticated connected_api
   \<and> opened connected_api = opened test_api @ [session_socket]
   \<and> length (opened connected_api) \<le> length (opened test_api) + 1"
proof -
  have first: "enableEvents (Inr login_response) SockOpen test_api = (Inr True, connected_api)"
    by (rule enableEvents_test_api)
  have sock: "eventSocket test_api = None \<and> eventSocket connected_api = Some session_socket
      \<and> isAuthenticated connected_api"
    by (simp add: test_api_def connected_api_def)
  obtain r2 s2 where second:
    "enableEvents (Inl (AxiosError None (Some ''ECONNREFUSED'') ''connect ECONNREFUSED''))
        (SockError (SocketError ''unexpected server response'')) connected_api = (r2, s2)"
    by (cases "enableEvents (Inl (AxiosError None (Some ''ECONNREFUSED'') ''connect ECONNREFUSED''))
        (SockError (SocketError ''unexpected server response'')) connected_api") blast
  show ?thesis
    using enableEvents_idempotent [OF first second, of session_socket] first second sock
    by simp
qed


lemma request_expires:
  "request ''/api/self'' GET JUndefined (Inr login_response) (Inl unauthorized) connected_api =
     (Inl (UniFiError ''Authentication failed'' (Some ''INVALID_CREDENTIALS'')), expired_api)"
  by (simp add: request_def ensure_auth send_failed on_rejected_def unauthorized_def Let_def
      expired_api_def connected_api_def)

lemma enableEvents_login_fails:
  "\<not> isAuthenticated s \<Longrightarrow>
   enableEvents (Inl e) sig s =
     (Inl (fst (on_rejected e s)),
      (snd (on_rejected e s))\<lparr>requests := requests s @ [login_request s],
        isAuthenticated := False\<rparr>)"
  by (simp add: enableEvents_def ensureAuthenticated_def login_failed)

text \<open>
  Claim C7 as the specification words it fails: \<^verbatim>\<open>enableEvents\<close> ensures
  authentication before it looks at the handle. After a 401 has cleared
  \<^verbatim>\<open>isAuthenticated\<close> the handle still exists, and two successive calls each send a
  login and reject when the controller cannot be reached.
\<close>

theorem enableEvents_unauthenticated_counterexample:
  "request ''/api/self'' GET JUndefined (Inr login_response) (Inl unauthorized) connected_api =
     (Inl (UniFiError ''Authentication failed'' (Some ''INVALID_CREDENTIALS'')), expired_api)
   \<and> eventSocket expired_api = Some session_socket
   \<and> enableEvents (Inl refused) SockOpen expired_api =
       (Inl (UniFiError ''Cannot connect to UniFi Controller at https://test.local:8443''
               (Some ''CONNECTION_ERROR'')),
        expired_api\<lparr>requests := requests expired_api @ [login_request expired_api]\<rparr>)
   \<and> enableEvents (Inl refused) SockOpen
         (expired_api\<lparr>requests := requests expired_api @ [login_request expired_api]\<rparr>) =
       (Inl (UniFiError ''Cannot connect to UniFi Controller at https://test.local:8443''
               (Some ''CONNECTION_ERROR'')),
        expired_api\<lparr>requests := requests expired_api @ [login_request expired_api,
                                                          login_request expired_api]\<rparr>)"
proof -
  have auth: "\<not> isAuthenticated expired_api"
    "\<not> isAuthenticated (expired_api\<lparr>requests := requests expired_api @ [login_request expired_api]\<rparr>)"
    by (simp_all add: expired_api_def)
  have sock: "eventSocket expired_api = Some session_socket"
    by (simp add: expired_api_def connected_api_def)
  have url: "baseURL expired_api = ''https://test.local:8443''"
    by (simp add: expired_api_def connected_api_def test_api_def)
  have same: "login_request (expired_api\<lparr>requests := requests expired_api @ [login_request expired_api]\<rparr>)
      = login_request expired_api"
    by (simp add: login_request_def on_request_def)
  show ?thesis
    using sock
    by (simp add: request_expires enableEvents_login_fails auth on_rejected_def refused_def url same)
qed


section \<open>Lookup by identifier\<close>

lemma of_char_lower_upper:
  "is_upper c \<Longrightarrow> (of_char (ascii_lower c) :: nat) = of_char c + 32"
  by (simp add: ascii_lower_def is_upper_def)

lemma lower_not_upper: "\<not> is_upper c \<Longrightarrow> ascii_lower c = c"
  by (auto simp: ascii_lower_def is_upper_def)

lemma ascii_lower_char_eq_iff: "ascii_lower c = ascii_lower d \<longleftrightarrow> same_letter c d"
proof (cases "is_upper c"; cases "is_upper d")
  assume c: "is_upper c" and d: "is_upper d"
  have "ascii_lower c = ascii_lower d \<longleftrightarrow> (of_char (ascii_lower c) :: nat) = of_char (ascii_lower d)"
    by simp
  also have "\<dots> \<longleftrightarrow> (of_char c :: nat) = of_char d"
    using c d by (simp add: of_char_lower_upper)
  also have "\<dots> \<longleftrightarrow> c = d" by simp
  finally show ?thesis
    using c d by (auto simp: same_letter_def is_upper_def)
next
  assume c: "is_upper c" and d: "\<not> is_upper d"
  have "ascii_lower c = ascii_lower d \<longleftrightarrow> (of_char (ascii_lower c) :: nat) = of_char (ascii_lower d)"
    by simp
  also have "\<dots> \<longleftrightarrow> (of_char c :: nat) + 32 = of_char d"
    using c d by (simp add: of_char_lower_upper lower_not_upper)
  finally show ?thesis
    using c d by (auto simp: same_letter_def)
next
  assume c: "\<not> is_upper c" and d: "is_upper d"
  have "ascii_lower c = ascii_lower d \<longleftrightarrow> (of_char (ascii_lower c) :: nat) = of_char (ascii_lower d)"
    by simp
  also have "\<dots> \<longleftrightarrow> (of_char c :: nat) = of_char d + 32"
    using c d by (simp add: of_char_lower_upper lower_not_upper)
  finally show ?thesis
    using c d by (auto simp: same_letter_def)
next
  assume c: "\<not> is_upper c" and d: "\<not> is_upper d"
  then show ?thesis
    by (auto simp: same_letter_def lower_not_upper)
qed

lemma ascii_lower_eq_iff: "map ascii_lower a = map ascii_lower b \<longleftrightarrow> equal_ignoring_case a b"
  unfolding equal_ignoring_case_def
proof (induction a arbitrary: b)
  case Nil
  then show ?case by auto
next
  case (Cons x xs)
  then show ?case by (cases b) (auto simp: ascii_lower_char_eq_iff)
qed

lemma toLowerCase_eq_iff:
  "ascii a \<Longrightarrow> ascii b \<Longrightarrow>
   toLowerCase unicode_lower a = toLowerCase unicode_lower b \<longleftrightarrow> equal_ignoring_case a b"
  by (simp add: toLowerCase_def ascii_lower_eq_iff)

lemma mac_matches_typed:
  "mac_of d = Some m \<Longrightarrow> ascii m \<Longrightarrow> ascii mac \<Longrightarrow>
   mac_matches unicode_lower mac d = Inr (equal_ignoring_case m mac)"
  by (cases "nullish d")
     (auto simp: mac_of_def mac_matches_def js_get_def and_then_def property_nullish
        toLowerCase_eq_iff split: jvalue.splits)

lemma mac_matches_matches:
  "ascii mac \<Longrightarrow> matches mac d \<Longrightarrow> mac_matches unicode_lower mac d = Inr True"
  by (auto simp: matches_def mac_matches_typed split: option.splits)

lemma mac_matches_differs:
  "ascii mac \<Longrightarrow> differs mac d \<Longrightarrow> mac_matches unicode_lower mac d = Inr False"
  by (auto simp: differs_def mac_matches_typed split: option.splits)

lemma matches_truthy: "matches mac d \<Longrightarrow> truthy d"
  by (cases d) (auto simp: matches_def mac_of_def)

lemma array_find_none:
  "ascii mac \<Longrightarrow> \<forall>d\<in>set ds. differs mac d \<Longrightarrow>
   array_find (mac_matches unicode_lower mac) ds = Inr JUndefined"
  by (induction ds) (auto simp: mac_matches_differs)

lemma array_find_first:
  "ascii mac \<Longrightarrow> \<forall>x\<in>set pre. differs mac x \<Longrightarrow> matches mac d \<Longrightarrow>
   array_find (mac_matches unicode_lower mac) (pre @ d # post) = Inr d"
  by (induction pre) (auto simp: mac_matches_differs mac_matches_matches)

lemma find_by_mac_none:
  "ascii mac \<Longrightarrow> \<forall>d\<in>set ds. differs mac d \<Longrightarrow>
   find_by_mac unicode_lower kind (JArr ds) mac =
     Inl (UniFiError (kind @ '' with MAC '' @ mac @ '' not found'') None)"
  by (simp add: find_by_mac_def array_find_none and_then_def)

lemma find_by_mac_first:
  "ascii mac \<Longrightarrow> \<forall>x\<in>set pre. differs mac x \<Longrightarrow> matches mac d \<Longrightarrow>
   find_by_mac unicode_lower kind (JArr (pre @ d # post)) mac = Inr d"
  by (simp add: find_by_mac_def array_find_first and_then_def matches_truthy)

text \<open>
  An entry without a string identifier that the search reaches makes the callback throw.
\<close>

lemma find_by_mac_untyped:
  "ascii mac \<Longrightarrow> \<forall>x\<in>set pre. differs mac x \<Longrightarrow> mac_of d = None \<Longrightarrow>
   isl (find_by_mac unicode_lower kind (JArr (pre @ d # post)) mac)"
proof -
  assume mac: "ascii mac" and none: "mac_of d = None"
  from none have bad: "isl (mac_matches unicode_lower mac d)"
    by (auto simp: mac_of_def mac_matches_def js_get_def and_then_def split: jvalue.splits)
  assume "\<forall>x\<in>set pre. differs mac x"
  with mac bad have "isl (array_find (mac_matches unicode_lower mac) (pre @ d # post))"
    by (induction pre) (auto simp: mac_matches_differs split: sum.splits)
  then show ?thesis
    by (auto simp: find_by_mac_def and_then_def split: sum.splits)
qed

lemma matches_case:
  "equal_ignoring_case mac mac' \<Longrightarrow> matches mac d = matches mac' d"
  by (auto simp: matches_def ascii_lower_eq_iff [symmetric] split: option.splits)

lemma mac_matches_case:
  "ascii mac \<Longrightarrow> ascii mac' \<Longrightarrow> equal_ignoring_case mac mac' \<Longrightarrow>
   mac_matches unicode_lower mac = mac_matches unicode_lower mac'"
proof -
  assume "ascii mac" "ascii mac'" "equal_ignoring_case mac mac'"
  then have eq: "toLowerCase unicode_lower mac = toLowerCase unicode_lower mac'"
    by (simp add: toLowerCase_eq_iff)
  show ?thesis
    unfolding mac_matches_def eq ..
qed

lemma find_by_mac_case:
  assumes "ascii mac" and "ascii mac'" and "equal_ignoring_case mac mac'"
  shows "find_by_mac unicode_lower kind (JArr ds) mac = Inr d \<longleftrightarrow>
         find_by_mac unicode_lower kind (JArr ds) mac' = Inr d"
  using mac_matches_case [OF assms, of unicode_lower]
  by (auto simp: find_by_mac_def and_then_def split: sum.splits if_splits)

lemma ascii_macs:
  "ascii ''AA:bb:CC:00:11:22''" "ascii ''aa:bb:cc:00:11:22''" "ascii ''00:11:22:33:44:55''"
  "ascii ''AA:BB:CC:00:11:22''" "ascii ''FF:FF:FF:FF:FF:FF''"
  by (simp_all add: ascii_def)

lemma getDevices_connected:
  "fst (getDevices (Inr login_response) (Inr devices_response) connected_api) = Inr (JArr device_list)"
  by (simp add: getDevices_def request_def ensure_auth send_ok unwrap_eq devices_response_def
      connected_api_def)

text \<open>
  Claim C8. \<^verbatim>\<open>getDevice\<close> and \<^verbatim>\<open>getClient\<close> search the fetched collection. For
  every fetched collection and every address, both in the ASCII characters a MAC address
  is written in: the lookup returns the first entry whose identifier equals the address
  up to case, whatever comes after that entry, and rejects with the not-found error when
  the identifier of every entry differs from the address. Whether an entry matches, and
  which entry a lookup returns, does not change when the address, or the stored
  identifier, is replaced by one that differs in case only. None of this depends on how
  the runtime lower-cases other characters.
\<close>

theorem lookup_by_mac:
  "(getDevices raw_login raw s = (Inr (JArr ds), s1) \<longrightarrow>
      getDevice unicode_lower mac raw_login raw s =
        (find_by_mac unicode_lower ''Device'' (JArr ds) mac, s1))
   \<and> (getClients raw_login raw s = (Inr (JArr ds), s2) \<longrightarrow>
      getClient unicode_lower mac raw_login raw s =
        (find_by_mac unicode_lower ''Client'' (JArr ds) mac, s2))
   \<and> (ascii mac \<and> ds = pre @ d # post \<and> (\<forall>x\<in>set pre. differs mac x) \<and> matches mac d \<longrightarrow>
      find_by_mac unicode_lower kind (JArr ds) mac = Inr d)
   \<and> (ascii mac \<and> (\<forall>x\<in>set ds. differs mac x) \<longrightarrow>
      find_by_mac unicode_lower kind (JArr ds) mac =
        Inl (UniFiError (kind @ '' with MAC '' @ mac @ '' not found'') None))
   \<and> (ascii mac \<and> ascii mac' \<and> equal_ignoring_case mac mac' \<longrightarrow>
      matches mac d = matches mac' d \<and>
      (find_by_mac unicode_lower kind (JArr ds) mac = Inr d \<longleftrightarrow>
       find_by_mac unicode_lower kind (JArr ds) mac' = Inr d))
   \<and> (mac_of d = Some m \<and> mac_of d' = Some m' \<and> ascii m \<and> ascii m' \<and>
      equal_ignoring_case m m' \<longrightarrow>
      matches mac d = matches mac d')"
proof -
  have fetch_d: "getDevices raw_login raw s = (Inr (JArr ds), s1) \<longrightarrow>
      getDevice unicode_lower mac raw_login raw s =
        (find_by_mac unicode_lower ''Device'' (JArr ds) mac, s1)"
    by (simp add: getDevice_def)
  have fetch_c: "getClients raw_login raw s = (Inr (JArr ds), s2) \<longrightarrow>
      getClient unicode_lower mac raw_login raw s =
        (find_by_mac unicode_lower ''Client'' (JArr ds) mac, s2)"
    by (simp add: getClient_def)
  have found: "ascii mac \<and> ds = pre @ d # post \<and> (\<forall>x\<in>set pre. differs mac x) \<and>
      matches mac d \<longrightarrow> find_by_mac unicode_lower kind (JArr ds) mac = Inr d"
  proof (intro impI, elim conjE)
    assume mac: "ascii mac" and ds: "ds = pre @ d # post"
      and pre: "\<forall>x\<in>set pre. differs mac x" and d: "matches mac d"
    show "find_by_mac unicode_lower kind (JArr ds) mac = Inr d"
      unfolding ds using mac pre d by (rule find_by_mac_first)
  qed
  have absent: "ascii mac \<and> (\<forall>x\<in>set ds. differs mac x) \<longrightarrow>
      find_by_mac unicode_lower kind (JArr ds) mac =
        Inl (UniFiError (kind @ '' with MAC '' @ mac @ '' not found'') None)"
  proof (intro impI, elim conjE)
    assume "ascii mac" and "\<forall>x\<in>set ds. differs mac x"
    then show "find_by_mac unicode_lower kind (JArr ds) mac =
        Inl (UniFiError (kind @ '' with MAC '' @ mac @ '' not found'') None)"
      by (rule find_by_mac_none)
  qed
  have arg: "ascii mac \<and> ascii mac' \<and> equal_ignoring_case mac mac' \<longrightarrow>
      matches mac d = matches mac' d \<and>
      (find_by_mac unicode_lower kind (JArr ds) mac = Inr d \<longleftrightarrow>
       find_by_mac unicode_lower kind (JArr ds) mac' = Inr d)"
    using find_by_mac_case [of mac mac' unicode_lower kind ds d] by (auto dest: matches_case)
  have stored: "mac_of d = Some m \<and> mac_of d' = Some m' \<and> ascii m \<and> ascii m' \<and>
      equal_ignoring_case m m' \<longrightarrow> matches mac d = matches mac d'"
    by (auto simp: matches_def ascii_lower_eq_iff [symmetric])
  from fetch_d fetch_c found absent arg stored show ?thesis by blast
qed

theorem lookup_by_mac_witness:
  "map mac_of device_list =
     [Some ''00:11:22:33:44:55'', Some ''aa:bb:cc:00:11:22'', Some ''AA:BB:CC:00:11:22'']
   \<and> ascii ''AA:bb:CC:00:11:22'' \<and> ascii ''aa:bb:cc:00:11:22'' \<and> ascii ''AA:BB:CC:00:11:22''
   \<and> ascii ''FF:FF:FF:FF:FF:FF''
   \<and> fst (getDevice id ''AA:bb:CC:00:11:22'' (Inr login_response)
            (Inr devices_response) connected_api) =
       Inr (JObj [(''mac'', JStr ''aa:bb:cc:00:11:22''), (''name'', JStr ''first'')])
   \<and> fst (getDevice id ''aa:bb:cc:00:11:22'' (Inr login_response)
            (Inr devices_response) connected_api) =
       Inr (JObj [(''mac'', JStr ''aa:bb:cc:00:11:22''), (''name'', JStr ''first'')])
   \<and> fst (getDevice id ''FF:FF:FF:FF:FF:FF'' (Inr login_response)
            (Inr devices_response) connected_api) =
       Inl (UniFiError ''Device with MAC FF:FF:FF:FF:FF:FF not found'' None)
   \<and> equal_ignoring_case ''AA:bb:CC:00:11:22'' ''aa:bb:cc:00:11:22''
   \<and> equal_ignoring_case ''aa:bb:cc:00:11:22'' ''AA:BB:CC:00:11:22''
   \<and> matches ''AA:bb:CC:00:11:22'' (JObj [(''mac'', JStr ''aa:bb:cc:00:11:22''), (''name'', JStr ''first'')])
   \<and> matches ''AA:bb:CC:00:11:22'' (JObj [(''mac'', JStr ''AA:BB:CC:00:11:22''), (''name'', JStr ''second'')])
   \<and> differs ''AA:bb:CC:00:11:22'' (JObj [(''mac'', JStr ''00:11:22:33:44:55''), (''name'', JStr ''switch'')])"
proof -
  let ?sw = "JObj [(''mac'', JStr ''00:11:22:33:44:55''), (''name'', JStr ''switch'')]"
  let ?a = "JObj [(''mac'', JStr ''aa:bb:cc:00:11:22''), (''name'', JStr ''first'')]"
  let ?b = "JObj [(''mac'', JStr ''AA:BB:CC:00:11:22''), (''name'', JStr ''second'')]"
  let ?get = "getDevices (Inr login_response) (Inr devices_response) connected_api"
  have fetched: "?get = (Inr (JArr device_list), snd ?get)"
    using getDevices_connected by (simp add: prod_eq_iff)
  have split: "device_list = [?sw] @ ?a # [?b]"
    by (simp add: device_list_def)
  have m: "matches ''AA:bb:CC:00:11:22'' ?a" "matches ''AA:bb:CC:00:11:22'' ?b"
    "differs ''AA:bb:CC:00:11:22'' ?sw"
    "differs ''FF:FF:FF:FF:FF:FF'' ?sw" "differs ''FF:FF:FF:FF:FF:FF'' ?a"
    "differs ''FF:FF:FF:FF:FF:FF'' ?b"
    "equal_ignoring_case ''AA:bb:CC:00:11:22'' ''aa:bb:cc:00:11:22''"
    "equal_ignoring_case ''aa:bb:cc:00:11:22'' ''AA:BB:CC:00:11:22''"
    by (simp_all add: matches_def differs_def mac_of_def ascii_macs
        ascii_lower_eq_iff [symmetric] ascii_lower_def char_of_def bit_Suc_0_iff)
  have macs: "map mac_of device_list =
     [Some ''00:11:22:33:44:55'', Some ''aa:bb:cc:00:11:22'', Some ''AA:BB:CC:00:11:22'']"
    by (simp add: device_list_def mac_of_def)
  have none: "\<forall>x\<in>set device_list. differs ''FF:FF:FF:FF:FF:FF'' x"
    using m by (simp add: device_list_def)
  have before: "\<forall>x\<in>set [?sw]. differs ''AA:bb:CC:00:11:22'' x"
    using m by simp
  note upper = lookup_by_mac [of "Inr login_response" "Inr devices_response" connected_api
        device_list "snd ?get" id "''AA:bb:CC:00:11:22''" "snd ?get" "[?sw]" ?a "[?b]"
        "''Device''" "''aa:bb:cc:00:11:22''" "''aa:bb:cc:00:11:22''" ?b "''AA:BB:CC:00:11:22''"]
  note lower = lookup_by_mac [of "Inr login_response" "Inr devices_response" connected_api
        device_list "snd ?get" id "''aa:bb:cc:00:11:22''" "snd ?get" "[?sw]" ?a "[?b]"
        "''Device''" "''aa:bb:cc:00:11:22''" "''aa:bb:cc:00:11:22''" ?b "''AA:BB:CC:00:11:22''"]
  note other = lookup_by_mac [of "Inr login_response" "Inr devices_response" connected_api
        device_list "snd ?get" id "''FF:FF:FF:FF:FF:FF''" "snd ?get" "[?sw]" ?a "[?b]"
        "''Device''" "''aa:bb:cc:00:11:22''" "''aa:bb:cc:00:11:22''" ?b "''AA:BB:CC:00:11:22''"]
  have found: "find_by_mac id ''Device'' (JArr device_list) ''AA:bb:CC:00:11:22'' = Inr ?a"
    using upper ascii_macs(1) split before m(1) by blast
  then have found': "find_by_mac id ''Device'' (JArr device_list) ''aa:bb:cc:00:11:22'' = Inr ?a"
    using upper ascii_macs(1,2) m(7) by blast
  have absent: "find_by_mac id ''Device'' (JArr device_list) ''FF:FF:FF:FF:FF:FF'' =
      Inl (UniFiError (''Device'' @ '' with MAC '' @ ''FF:FF:FF:FF:FF:FF'' @ '' not found'') None)"
    using other ascii_macs(5) none by blast
  have get1: "fst (getDevice id ''AA:bb:CC:00:11:22'' (Inr login_response)
      (Inr devices_response) connected_api) = Inr ?a"
    using upper fetched found by simp
  have get2: "fst (getDevice id ''aa:bb:cc:00:11:22'' (Inr login_response)
      (Inr devices_response) connected_api) = Inr ?a"
    using lower fetched found' by simp
  have get3: "fst (getDevice id ''FF:FF:FF:FF:FF:FF'' (Inr login_response)
      (Inr devices_response) connected_api) =
      Inl (UniFiError ''Device with MAC FF:FF:FF:FF:FF:FF not found'' None)"
    using other fetched absent by simp
  show ?thesis
    using macs ascii_macs m get1 get2 get3 by simp
qed

section \<open>Statistics of one device or client\<close>

lemma unwrap_truthy: "unwrap d = Inr v \<Longrightarrow> truthy v"
  by (cases d) (auto simp: unwrap_eq split: if_splits sum.splits)

lemma request_truthy: "request endpoint method data raw_login raw s = (Inr v, s1) \<Longrightarrow> truthy v"
  by (cases "ensureAuthenticated raw_login s"; cases raw)
     (auto simp: request_def Let_def send_ok send_failed dest: unwrap_truthy split: sum.splits)

lemma first_or_null_total: "truthy coll \<Longrightarrow> \<exists>v. first_or_null coll = Inr v"
  by (cases coll) (auto simp: first_or_null_def and_then_def)

lemma request_fetch:
  "isAuthenticated s \<Longrightarrow> unwrap (resp_data r) = Inr v \<Longrightarrow>
   request endpoint method data raw_login (Inr r) s =
     (Inr v, snd (request endpoint method data raw_login (Inr r) s))"
  by (simp add: request_def ensure_auth send_ok Let_def)

text \<open>
  Claim C10. \<^verbatim>\<open>getDeviceStats\<close> and \<^verbatim>\<open>getClientStats\<close> return the first element
  of the collection the controller returns for the statistics endpoint of the address,
  and return null, not an error, when the collection is empty or its first element is
  absent (or any other falsy value).
\<close>

theorem stats_first_or_null:
  assumes device: "request (site_path s (''/stat/device/'' @ mac)) GET JUndefined raw_login raw s = (Inr (JArr xs), s1)"
    and client: "request (site_path s (''/stat/user/'' @ mac)) GET JUndefined raw_login raw s = (Inr (JArr ys), s2)"
  shows "(xs = [] \<longrightarrow> getDeviceStats mac raw_login raw s = (Inr JNull, s1))
     \<and> (xs = x # rest \<and> truthy x \<longrightarrow> getDeviceStats mac raw_login raw s = (Inr x, s1))
     \<and> (xs = x # rest \<and> \<not> truthy x \<longrightarrow> getDeviceStats mac raw_login raw s = (Inr JNull, s1))
     \<and> (ys = [] \<longrightarrow> getClientStats mac raw_login raw s = (Inr JNull, s2))
     \<and> (ys = y # others \<and> truthy y \<longrightarrow> getClientStats mac raw_login raw s = (Inr y, s2))
     \<and> (ys = y # others \<and> \<not> truthy y \<longrightarrow> getClientStats mac raw_login raw s = (Inr JNull, s2))"
  using device client
  by (simp add: getDeviceStats_def getClientStats_def first_or_null_def and_then_def)

theorem stats_first_or_null_witness:
  "request (site_path connected_api (''/stat/device/'' @ ''00:11:22:33:44:55'')) GET JUndefined
      (Inr login_response) (Inr devices_response) connected_api =
     (Inr (JArr device_list),
      snd (request (site_path connected_api (''/stat/device/'' @ ''00:11:22:33:44:55'')) GET
             JUndefined (Inr login_response) (Inr devices_response) connected_api))
   \<and> fst (getDeviceStats ''00:11:22:33:44:55'' (Inr login_response) (Inr devices_response)
            connected_api) =
       Inr (JObj [(''mac'', JStr ''00:11:22:33:44:55''), (''name'', JStr ''switch'')])
   \<and> fst (getClientStats ''00:11:22:33:44:55'' (Inr login_response) (Inr devices_response)
            connected_api) =
       Inr (JObj [(''mac'', JStr ''00:11:22:33:44:55''), (''name'', JStr ''switch'')])
   \<and> fst (getDeviceStats ''00:11:22:33:44:55'' (Inr login_response) (Inr empty_response)
            connected_api) = Inr JNull
   \<and> fst (getClientStats ''00:11:22:33:44:55'' (Inr login_response) (Inr empty_response)
            connected_api) = Inr JNull
   \<and> fst (getDeviceStats ''00:11:22:33:44:55'' (Inr login_response) (Inr null_response)
            connected_api) = Inr JNull
   \<and> fst (getClientStats ''00:11:22:33:44:55'' (Inr login_response) (Inr null_response)
            connected_api) = Inr JNull"
proof -
  let ?mac = "''00:11:22:33:44:55''"
  let ?sw = "JObj [(''mac'', JStr ''00:11:22:33:44:55''), (''name'', JStr ''switch'')]"
  have auth: "isAuthenticated connected_api"
    by (simp add: connected_api_def)
  have list: "unwrap (resp_data devices_response) = Inr (JArr device_list)"
    and none: "unwrap (resp_data empty_response) = Inr (JArr [])"
    and null: "unwrap (resp_data null_response) = Inr (JArr [JNull])"
    by (simp_all add: unwrap_eq devices_response_def empty_response_def null_response_def)
  note d1 = request_fetch [OF auth list, of "site_path connected_api (''/stat/device/'' @ ?mac)" GET
      JUndefined "Inr login_response"]
  note c1 = request_fetch [OF auth list, of "site_path connected_api (''/stat/user/'' @ ?mac)" GET
      JUndefined "Inr login_response"]
  note d0 = request_fetch [OF auth none, of "site_path connected_api (''/stat/device/'' @ ?mac)" GET
      JUndefined "Inr login_response"]
  note c0 = request_fetch [OF auth none, of "site_path connected_api (''/stat/user/'' @ ?mac)" GET
      JUndefined "Inr login_response"]
  note dn = request_fetch [OF auth null, of "site_path connected_api (''/stat/device/'' @ ?mac)" GET
      JUndefined "Inr login_response"]
  note cn = request_fetch [OF auth null, of "site_path connected_api (''/stat/user/'' @ ?mac)" GET
      JUndefined "Inr login_response"]
  have split: "device_list = ?sw # tl device_list" "truthy ?sw"
    by (simp_all add: device_list_def)
  show ?thesis
    using d1 stats_first_or_null [OF d1 c1, of ?sw "tl device_list" ?sw "tl device_list"]
      stats_first_or_null [OF d0 c0] stats_first_or_null [OF dn cn, of JNull "[]" JNull "[]"] split
    by simp
qed

text \<open>
  The two operations raise nothing of their own: when one fails, \<^verbatim>\<open>request\<close> failed.
\<close>

lemma stats_errors_from_request:
  "(fst (getDeviceStats mac raw_login raw s) = Inl e \<longrightarrow>
      fst (request (site_path s (''/stat/device/'' @ mac)) GET JUndefined raw_login raw s) = Inl e)"
proof (cases "request (site_path s (''/stat/device/'' @ mac)) GET JUndefined raw_login raw s")
  case (Pair r s1)
  show ?thesis
  proof (cases r)
    case (Inl e')
    with Pair show ?thesis by (simp add: getDeviceStats_def)
  next
    case (Inr v)
    with Pair have "truthy v" by (auto dest: request_truthy)
    then obtain w where "first_or_null v = Inr w" using first_or_null_total by blast
    with Pair Inr show ?thesis by (simp add: getDeviceStats_def)
  qed
qed

section \<open>Routing events\<close>

lemma handleEvent_dropped:
  "\<not> truthy (property event ''meta'') \<Longrightarrow> handleEvent event s = (Inr (), s)"
  using truthy_not_nullish [of event] by (auto simp: handleEvent_def js_get_def)

lemma handleEvent_routed:
  assumes "truthy (property event ''meta'')"
  shows "handleEvent event s =
     (Inr (),
      emit ''raw_event'' (Val event)
        (let eventType = property (property event ''meta'') ''message'';
             eventData = (if truthy (property event ''data'') then property event ''data'' else JObj [])
         in if eventType = JStr ''sta:connect'' then emit ''client.connected'' (Val eventData) s
            else if eventType = JStr ''sta:disconnect'' then emit ''client.disconnected'' (Val eventData) s
            else if eventType = JStr ''ap:detected'' then emit ''device.detected'' (Val eventData) s
            else if eventType = JStr ''ap:lost'' then emit ''device.lost'' (Val eventData) s
            else emit ''event'' (Val (JObj [(''type'', eventType), (''data'', eventData)])) s))"
proof -
  from assms have obj: "\<not> nullish event" "truthy event"
    by (cases event; simp)+
  from assms have meta: "\<not> nullish (property event ''meta'')"
    by (rule truthy_not_nullish)
  show ?thesis
    using assms obj meta by (simp add: handleEvent_def js_get_def Let_def)
qed


text \<open>
  Claim C1, as amended. For every envelope with a metadata section delivered to the
  event handler: the tag is the metadata's \<^verbatim>\<open>message\<close>, and the payload is the
  envelope's data, or an empty object when the envelope has none. The tag
  \<^verbatim>\<open>sta:connect\<close> emits exactly one \<^verbatim>\<open>client.connected\<close> notification that carries
  the payload, \<^verbatim>\<open>sta:disconnect\<close> emits \<^verbatim>\<open>client.disconnected\<close>, \<^verbatim>\<open>ap:detected\<close>
  emits \<^verbatim>\<open>device.detected\<close>, \<^verbatim>\<open>ap:lost\<close> emits \<^verbatim>\<open>device.lost\<close>, and every
  other tag emits one generic \<^verbatim>\<open>event\<close> notification that carries the tag and the
  payload. In each case exactly one \<^verbatim>\<open>raw_event\<close> notification with the whole envelope
  follows, nothing else is emitted, nothing else changes, and nothing is thrown. An
  envelope without a metadata section is dropped: nothing is emitted for it.
\<close>

theorem handleEvent_routes_by_tag:
  assumes tag: "tag = property (property event ''meta'') ''message''"
    and payload: "eventData = (if truthy (property event ''data'') then property event ''data''
                               else JObj [])"
  shows "(truthy (property event ''meta'') \<longrightarrow>
          fst (handleEvent event s) = Inr ()
        \<and> (tag = JStr ''sta:connect'' \<longrightarrow>
             emitted (snd (handleEvent event s)) =
               emitted s @ [(''client.connected'', Val eventData), (''raw_event'', Val event)])
        \<and> (tag = JStr ''sta:disconnect'' \<longrightarrow>
             emitted (snd (handleEvent event s)) =
               emitted s @ [(''client.disconnected'', Val eventData), (''raw_event'', Val event)])
        \<and> (tag = JStr ''ap:detected'' \<longrightarrow>
             emitted (snd (handleEvent event s)) =
               emitted s @ [(''device.detected'', Val eventData), (''raw_event'', Val event)])
        \<and> (tag = JStr ''ap:lost'' \<longrightarrow>
             emitted (snd (handleEvent event s)) =
               emitted s @ [(''device.lost'', Val eventData), (''raw_event'', Val event)])
        \<and> (tag \<noteq> JStr ''sta:connect'' \<and> tag \<noteq> JStr ''sta:disconnect'' \<and>
           tag \<noteq> JStr ''ap:detected'' \<and> tag \<noteq> JStr ''ap:lost'' \<longrightarrow>
             emitted (snd (handleEvent event s)) =
               emitted s @ [(''event'', Val (JObj [(''type'', tag), (''data'', eventData)])),
                            (''raw_event'', Val event)])
        \<and> (snd (handleEvent event s))\<lparr>emitted := emitted s\<rparr> = s)
     \<and> (\<not> truthy (property event ''meta'') \<longrightarrow> handleEvent event s = (Inr (), s))"
  using tag payload by (simp add: handleEvent_routed handleEvent_dropped emit_def Let_def)

theorem handleEvent_routes_by_tag_witness:
  "truthy (property (tagged ''sta:connect'') ''meta'')
   \<and> property (property (tagged ''sta:connect'') ''meta'') ''message'' = JStr ''sta:connect''
   \<and> handleEvent (tagged ''sta:connect'') test_api =
       (Inr (), test_api\<lparr>emitted :=
          [(''client.connected'', Val (JObj [(''mac'', JStr ''AA'')])),
           (''raw_event'', Val (tagged ''sta:connect''))]\<rparr>)
   \<and> emitted (snd (handleEvent (tagged ''sta:disconnect'') test_api)) =
       [(''client.disconnected'', Val (JObj [(''mac'', JStr ''AA'')])),
        (''raw_event'', Val (tagged ''sta:disconnect''))]
   \<and> emitted (snd (handleEvent (tagged ''ap:detected'') test_api)) =
       [(''device.detected'', Val (JObj [(''mac'', JStr ''AA'')])),
        (''raw_event'', Val (tagged ''ap:detected''))]
   \<and> emitted (snd (handleEvent (tagged ''ap:lost'') test_api)) =
       [(''device.lost'', Val (JObj [(''mac'', JStr ''AA'')])),
        (''raw_event'', Val (tagged ''ap:lost''))]
   \<and> emitted (snd (handleEvent (tagged ''custom:event'') test_api)) =
       [(''event'', Val (JObj [(''type'', JStr ''custom:event''),
                               (''data'', JObj [(''mac'', JStr ''AA'')])])),
        (''raw_event'', Val (tagged ''custom:event''))]
   \<and> truthy (property (JObj [(''meta'', JObj [(''message'', JStr ''sta:connect'')])]) ''meta'')
   \<and> emitted (snd (handleEvent (JObj [(''meta'', JObj [(''message'', JStr ''sta:connect'')])])
                  test_api)) =
       [(''client.connected'', Val (JObj [])),
        (''raw_event'', Val (JObj [(''meta'', JObj [(''message'', JStr ''sta:connect'')])]))]
   \<and> \<not> truthy (property (JObj [(''data'', JStr ''x'')]) ''meta'')
   \<and> handleEvent (JObj [(''data'', JStr ''x'')]) test_api = (Inr (), test_api)"
proof -
  let ?nodata = "JObj [(''meta'', JObj [(''message'', JStr ''sta:connect'')])]"
  let ?bare = "JObj [(''data'', JStr ''x'')]"
  have tag: "JStr t = property (property (tagged t) ''meta'') ''message''"
    and payload: "JObj [(''mac'', JStr ''AA'')] =
       (if truthy (property (tagged t) ''data'') then property (tagged t) ''data'' else JObj [])"
    and meta: "truthy (property (tagged t) ''meta'')" for t
    by (simp_all add: tagged_def)
  have tag': "JStr ''sta:connect'' = property (property ?nodata ''meta'') ''message''"
    and payload': "JObj [] = (if truthy (property ?nodata ''data'') then property ?nodata ''data''
                              else JObj [])"
    and meta': "truthy (property ?nodata ''meta'')"
    by simp_all
  have tag'': "JUndefined = property (property ?bare ''meta'') ''message''"
    and payload'': "JStr ''x'' = (if truthy (property ?bare ''data'') then property ?bare ''data''
                                  else JObj [])"
    and meta'': "\<not> truthy (property ?bare ''meta'')"
    by simp_all
  have none: "emitted test_api = []"
    by (simp add: test_api_def)
  have whole: "handleEvent (tagged ''sta:connect'') test_api =
       (fst (handleEvent (tagged ''sta:connect'') test_api),
        ((snd (handleEvent (tagged ''sta:connect'') test_api))\<lparr>emitted := emitted test_api\<rparr>)
          \<lparr>emitted := emitted (snd (handleEvent (tagged ''sta:connect'') test_api))\<rparr>)"
    by simp
  show ?thesis
    using handleEvent_routes_by_tag [OF tag payload, of "''sta:connect''" test_api]
      handleEvent_routes_by_tag [OF tag payload, of "''sta:disconnect''" test_api]
      handleEvent_routes_by_tag [OF tag payload, of "''ap:detected''" test_api]
      handleEvent_routes_by_tag [OF tag payload, of "''ap:lost''" test_api]
      handleEvent_routes_by_tag [OF tag payload, of "''custom:event''" test_api]
      handleEvent_routes_by_tag [OF tag' payload', of test_api]
      handleEvent_routes_by_tag [OF tag'' payload'', of test_api]
      meta meta' meta'' tag [of "''sta:connect''", symmetric] none whole
    by simp
qed

text \<open>
  Claim C1 as the specification words it fails: the tag \<^verbatim>\<open>station-connect\<close> is not one
  the handler knows, so the envelope gets the generic \<^verbatim>\<open>event\<close> notification and no
  \<^verbatim>\<open>client.connected\<close>; and an envelope without a metadata section gets no
  \<^verbatim>\<open>raw_event\<close>.
\<close>

theorem handleEvent_tags_counterexample:
  "emitted (snd (handleEvent station_connect_envelope test_api)) =
     [(''event'', Val (JObj [(''type'', JStr ''station-connect''),
                             (''data'', JObj [(''mac'', JStr ''AA'')])])),
      (''raw_event'', Val station_connect_envelope)]
   \<and> (''client.connected'', Val (JObj [(''mac'', JStr ''AA'')]))
        \<notin> set (emitted (snd (handleEvent station_connect_envelope test_api)))
   \<and> emitted (snd (handleEvent (JObj [(''data'', JStr ''x'')]) test_api)) = []"
  by (simp add: handleEvent_routed handleEvent_dropped station_connect_envelope_def emit_def
      test_api_def Let_def)

text \<open>
  Claim C4, as amended. None of \<^verbatim>\<open>null\<close>, \<^verbatim>\<open>undefined\<close>, \<^verbatim>\<open>{}\<close>,
  \<^verbatim>\<open>{meta: null}\<close>, \<^verbatim>\<open>{meta: {}}\<close> and \<^verbatim>\<open>{data: "x"}\<close> makes the event handler
  throw. The five that have no metadata section are dropped: nothing is emitted and the
  client is unchanged. \<^verbatim>\<open>{meta: {}}\<close> has a metadata section without a tag; the
  handler emits a generic \<^verbatim>\<open>event\<close> notification with an undefined tag and an empty
  payload, and a \<^verbatim>\<open>raw_event\<close>.
\<close>

theorem handleEvent_malformed:
  "handleEvent JNull s = (Inr (), s)
   \<and> handleEvent JUndefined s = (Inr (), s)
   \<and> handleEvent (JObj []) s = (Inr (), s)
   \<and> handleEvent (JObj [(''meta'', JNull)]) s = (Inr (), s)
   \<and> handleEvent (JObj [(''data'', JStr ''x'')]) s = (Inr (), s)
   \<and> handleEvent (JObj [(''meta'', JObj [])]) s =
       (Inr (), s\<lparr>emitted := emitted s @
          [(''event'', Val (JObj [(''type'', JUndefined), (''data'', JObj [])])),
           (''raw_event'', Val (JObj [(''meta'', JObj [])]))]\<rparr>)"
  by (simp add: handleEvent_routed handleEvent_dropped emit_def Let_def)

text \<open>
  Claim C4 as the specification words it fails at \<^verbatim>\<open>{meta: {}}\<close>: a typed notification,
  the generic \<^verbatim>\<open>event\<close>, is emitted.
\<close>

theorem handleEvent_empty_meta_counterexample:
  "emitted (snd (handleEvent (JObj [(''meta'', JObj [])]) test_api)) =
     [(''event'', Val (JObj [(''type'', JUndefined), (''data'', JObj [])])),
      (''raw_event'', Val (JObj [(''meta'', JObj [])]))]"
  by (simp add: handleEvent_routed emit_def test_api_def Let_def)

section \<open>Ending the session\<close>

text \<open>
  Claim C3. When the controller answers the logout call with a 401, \<^verbatim>\<open>logout\<close>
  returns true with \<^verbatim>\<open>isAuthenticated\<close> cleared, but the event socket stays open and
  stored, no \<^verbatim>\<open>disconnected\<close> notification is emitted, and the cookie is kept. When
  the call succeeds, the same client closes the socket, clears the cookie and emits
  \<^verbatim>\<open>disconnected\<close>.
\<close>

theorem logout_failure_skips_cleanup:
  "logout (Inl unauthorized) connected_api =
     (Inr True, connected_api\<lparr>isAuthenticated := False,
                  requests := requests connected_api @ [logout_request connected_api]\<rparr>)
   \<and> eventSocket (snd (logout (Inl unauthorized) connected_api)) = Some session_socket
   \<and> closed (snd (logout (Inl unauthorized) connected_api)) = []
   \<and> (''disconnected'', NoPayload) \<notin> set (emitted (snd (logout (Inl unauthorized) connected_api)))
   \<and> cookies (snd (logout (Inl unauthorized) connected_api)) = ''unifises=abc''
   \<and> logout (Inr \<lparr>resp_data = JObj [(''meta'', JObj [(''rc'', JStr ''ok'')]), (''data'', JArr [])],
                    set_cookie = None\<rparr>) connected_api =
       (Inr True, connected_api\<lparr>isAuthenticated := False, cookies := [], csrfToken := JStr [],
                    eventSocket := None, closed := [session_socket],
                    emitted := emitted connected_api @ [(''disconnected'', NoPayload)],
                    requests := requests connected_api @ [logout_request connected_api]\<rparr>)"
  by (simp add: logout_def send_ok send_failed on_rejected_def on_fulfilled_def unauthorized_def
      logout_request_def emit_def Let_def connected_api_def test_api_def)


section \<open>Error codes\<close>

lemma collect_error: "collect rs = Inl e \<Longrightarrow> Inl e \<in> set rs"
  by (induction rs) (auto split: sum.splits)

lemma js_string_error_code: "js_string v = Inl e \<Longrightarrow> code e = None"
proof (induction v rule: js_string.induct)
  case (6 xs)
  then have "collect (map (\<lambda>x. if nullish x then Inr [] else js_string x) xs) = Inl e"
    by (auto simp: and_then_def split: sum.splits)
  then have "Inl e \<in> set (map (\<lambda>x. if nullish x then Inr [] else js_string x) xs)"
    by (rule collect_error)
  then obtain x where "x \<in> set xs" "\<not> nullish x" "js_string x = Inl e"
    by (auto split: if_splits)
  with 6 show ?case by blast
next
  case (7 kvs)
  then show ?case by (auto split: if_splits)
qed simp_all

lemma array_find_error_code: "array_find (mac_matches unicode_lower mac) ds = Inl e \<Longrightarrow> code e = None"
proof (induction ds)
  case Nil
  then show ?case by simp
next
  case (Cons d ds)
  then show ?case
    by (auto simp: mac_matches_def js_get_def and_then_def
        split: sum.splits if_splits jvalue.splits)
qed

text \<open>
  Claim C9, as amended. The errors the response interceptor raises carry a code:
  \<^verbatim>\<open>INVALID_CREDENTIALS\<close> for a 401 response, \<^verbatim>\<open>CONNECTION_ERROR\<close> for
  \<^verbatim>\<open>ECONNREFUSED\<close> and \<^verbatim>\<open>ENOTFOUND\<close>. The errors the library raises elsewhere carry
  none: the configuration error of the constructor, the error of \<^verbatim>\<open>login\<close> on a
  response that is not ok, the API error of \<^verbatim>\<open>request\<close>, and the not-found error of a
  lookup. A caller can tell those apart by their message only.
\<close>

theorem error_codes:
  "(response_status e = Some 401 \<longrightarrow>
      code (fst (on_rejected e s)) = Some ''INVALID_CREDENTIALS'')
   \<and> (response_status e \<noteq> Some 401 \<and>
       (code e = Some ''ECONNREFUSED'' \<or> code e = Some ''ENOTFOUND'') \<longrightarrow>
      code (fst (on_rejected e s)) = Some ''CONNECTION_ERROR'')
   \<and> (constructor cfg = Inl e1 \<longrightarrow> code e1 = None)
   \<and> (login (Inr r) s = (Inl e2, s2) \<longrightarrow> code e2 = None)
   \<and> (isAuthenticated s \<and> fst (request endpoint method data raw_login (Inr r) s) = Inl e3 \<longrightarrow>
      code e3 = None)
   \<and> (find_by_mac unicode_lower kind (JArr ds) mac = Inl e4 \<longrightarrow> code e4 = None)"
proof -
  have a: "response_status e = Some 401 \<longrightarrow>
      code (fst (on_rejected e s)) = Some ''INVALID_CREDENTIALS''"
    by (simp add: on_rejected_def)
  have b: "response_status e \<noteq> Some 401 \<and>
       (code e = Some ''ECONNREFUSED'' \<or> code e = Some ''ENOTFOUND'') \<longrightarrow>
      code (fst (on_rejected e s)) = Some ''CONNECTION_ERROR''"
    by (simp add: on_rejected_def)
  have c: "constructor cfg = Inl e1 \<longrightarrow> code e1 = None"
    by (auto simp: constructor_def Let_def split: if_splits)
  have d: "login (Inr r) s = (Inl e2, s2) \<longrightarrow> code e2 = None"
    by (cases "property (property (resp_data r) ''meta'') ''rc'' = JStr ''ok''")
       (auto simp: login_accepted login_rejected)
  have f: "isAuthenticated s \<and> fst (request endpoint method data raw_login (Inr r) s) = Inl e3 \<longrightarrow>
      code e3 = None"
    by (auto simp: request_def ensure_auth send_ok Let_def unwrap_eq
        dest: js_string_error_code split: if_splits sum.splits)
  have g: "find_by_mac unicode_lower kind (JArr ds) mac = Inl e4 \<longrightarrow> code e4 = None"
    by (auto simp: find_by_mac_def and_then_def dest: array_find_error_code
        split: sum.splits if_splits)
  from a b c d f g show ?thesis by blast
qed

theorem error_codes_witness:
  "response_status unauthorized = Some 401
   \<and> code (fst (on_rejected unauthorized connected_api)) = Some ''INVALID_CREDENTIALS''
   \<and> response_status (AxiosError None (Some ''ECONNREFUSED'') ''connect ECONNREFUSED'') \<noteq> Some 401
   \<and> code (AxiosError None (Some ''ECONNREFUSED'') ''connect ECONNREFUSED'') = Some ''ECONNREFUSED''
   \<and> code (fst (on_rejected (AxiosError None (Some ''ECONNREFUSED'') ''connect ECONNREFUSED'')
               connected_api)) = Some ''CONNECTION_ERROR''
   \<and> constructor (test_config\<lparr>host := None\<rparr>) =
       Inl (UniFiError ''Host, username, and password are required'' None)
   \<and> fst (login (Inr error_response) connected_api) =
       Inl (UniFiError ''Authentication failed: Invalid response'' None)
   \<and> isAuthenticated connected_api
   \<and> fst (request ''/api/s/default/stat/device'' GET JUndefined (Inr login_response)
            (Inr error_response) connected_api) =
       Inl (UniFiError ''API Error: api.err.NoSiteContext'' None)
   \<and> find_by_mac id ''Device'' (JArr []) ''FF:FF:FF:FF:FF:FF'' =
       Inl (UniFiError ''Device with MAC FF:FF:FF:FF:FF:FF not found'' None)
   \<and> code (UniFiError ''Host, username, and password are required'' None) = None
   \<and> code (UniFiError ''Authentication failed: Invalid response'' None) = None
   \<and> code (UniFiError ''API Error: api.err.NoSiteContext'' None) = None
   \<and> code (UniFiError ''Device with MAC FF:FF:FF:FF:FF:FF not found'' None) = None"
proof -
  let ?refused = "AxiosError None (Some ''ECONNREFUSED'') ''connect ECONNREFUSED''"
  let ?cfg = "test_config\<lparr>host := None\<rparr>"
  let ?e1 = "UniFiError ''Host, username, and password are required'' None"
  let ?e2 = "UniFiError ''Authentication failed: Invalid response'' None"
  let ?e3 = "UniFiError ''API Error: api.err.NoSiteContext'' None"
  let ?e4 = "UniFiError ''Device with MAC FF:FF:FF:FF:FF:FF not found'' None"
  have h1: "response_status unauthorized = Some 401"
    by (simp add: unauthorized_def)
  have h2: "response_status ?refused \<noteq> Some 401 \<and> code ?refused = Some ''ECONNREFUSED''"
    by simp
  have h3: "constructor ?cfg = Inl ?e1"
    by (simp add: constructor_def test_config_def missing_def Let_def)
  have h4': "fst (login (Inr error_response) connected_api) = Inl ?e2"
    by (simp add: login_rejected error_response_def)
  then have h4: "login (Inr error_response) connected_api =
      (Inl ?e2, snd (login (Inr error_response) connected_api))"
    by (simp add: prod_eq_iff)
  have h5: "isAuthenticated connected_api"
    by (simp add: connected_api_def)
  have h6: "fst (request ''/api/s/default/stat/device'' GET JUndefined (Inr login_response)
            (Inr error_response) connected_api) = Inl ?e3"
    using h5 by (simp add: request_def ensure_auth send_ok unwrap_eq error_response_def)
  have h7: "find_by_mac id ''Device'' (JArr []) ''FF:FF:FF:FF:FF:FF'' = Inl ?e4"
    by (simp add: find_by_mac_def and_then_def)
  show ?thesis
    using h1 h2 h3 h4' h5 h6 h7
      error_codes [of unauthorized connected_api ?cfg ?e1 error_response ?e2
        "snd (login (Inr error_response) connected_api)" "''/api/s/default/stat/device''" GET
        JUndefined "Inr login_response" ?e3 id "''Device''" "[]" "''FF:FF:FF:FF:FF:FF''" ?e4]
      error_codes [of ?refused connected_api ?cfg ?e1 error_response ?e2
        "snd (login (Inr error_response) connected_api)" "''/api/s/default/stat/device''" GET
        JUndefined "Inr login_response" ?e3 id "''Device''" "[]" "''FF:FF:FF:FF:FF:FF''" ?e4]
    by (simp add: h4 [symmetric])
qed

text \<open>
  Claim C9 as the specification words it fails: the configuration error, an API error and
  a not-found error all have an undefined code.
\<close>

theorem error_codes_counterexample:
  "constructor (test_config\<lparr>host := None\<rparr>) =
     Inl (UniFiError ''Host, username, and password are required'' None)
   \<and> code (UniFiError ''Host, username, and password are required'' None) = None
   \<and> fst (request ''/api/s/default/stat/device'' GET JUndefined (Inr login_response)
            (Inr error_response) connected_api) =
       Inl (UniFiError ''API Error: api.err.NoSiteContext'' None)
   \<and> find_by_mac id ''Device'' (JArr []) ''FF:FF:FF:FF:FF:FF'' =
       Inl (UniFiError ''Device with MAC FF:FF:FF:FF:FF:FF not found'' None)"
  by (simp add: constructor_def test_config_def missing_def with_default_def Let_def
      request_def ensure_auth send_ok unwrap_eq error_response_def connected_api_def
      find_by_mac_def and_then_def)


end
